theory Spec2Isabelle
  imports Main "HOL-Library.Sublist"
begin

section \<open>The session registry of the WhatsApp service\<close>

text \<open>
  The service module keeps four process-wide maps keyed by user id: \<open>activeClients\<close>,
  \<open>qrCodes\<close>, \<open>connectionStatus\<close> and \<open>initializingClients\<close>. Its exported functions
  are \<open>async\<close>: each runs synchronously up to its next \<open>await\<close>, is suspended there, and is
  resumed when the awaited operation settles. JavaScript runs one such segment at a time,
  so the model is a machine whose steps are the segments: a call runs the first segment
  of a function, and an event of the environment (the file system answers, the client's
  \<open>initialize()\<close> settles, a timer fires, the client emits a lifecycle event) runs the next
  segment of the suspended function or the registered handler.

  A client object lives in a store (\<open>clients\<close>, indexed by its number), because the code
  holds on to a client across an \<open>await\<close> while the map entry may change. A promise stored
  in \<open>initializingClients\<close> is an index into \<open>promises\<close>. Every suspended function is a
  \<open>task\<close> that records where it is suspended and the local variables it still needs.
\<close>

type_synonym uid = string
type_synonym cid = nat
type_synonym pid = nat
type_synonym tid = nat

datatype status =
  Initializing | QrReady | Authenticated | Restoring | Connected | Disconnected
  | AuthFailure | NotInitialized

datatype error = Error string

text \<open>The object returned by \<open>initializeWhatsApp\<close> (no \<open>hasSession\<close> field) and by
  \<open>restoreWhatsAppSession\<close> (with it).\<close>

record result =
  success :: bool
  connected :: bool
  hasSession :: "bool option"
  message :: string

text \<open>Which set of \<open>client.on\<close> handlers was registered on a client when it was created.\<close>

datatype handlers = InitHandlers | RestoreHandlers

record client =
  owner :: uid
  wired :: handlers
  info :: bool

datatype promise = Pending | Fulfilled result | Rejected error

datatype outcome = Returned result | ReturnedVoid | Threw error

datatype task =
    AwaitPromise uid pid
  | InitAwaitMkdir uid pid
  | InitAwaitConnect uid pid cid
  | RestoreAwaitTimer uid cid
  | RestoreAwaitFiles uid
  | RestoreAwaitMkdir uid pid
  | RestoreAwaitConnect uid pid cid
  | RestoreAwaitSettle uid pid cid
  | DiscAwaitLogout uid cid
  | DiscAwaitDestroy uid cid
  | BodyDone
  | Finished outcome

record sys =
  activeClients :: "uid \<rightharpoonup> cid"
  qrCodes :: "uid \<rightharpoonup> string"
  connectionStatus :: "uid \<rightharpoonup> status"
  initializingClients :: "uid \<rightharpoonup> pid"
  clients :: "client list"
  promises :: "promise list"
  tasks :: "task list"
  pending_deletes :: "uid \<Rightarrow> nat"

text \<open>
  The last field is not a variable of the code. It counts, per user, how often the statement
  \<open>initializingClients.delete(userId)\<close> has been executed, so that a property can say how
  often a pending entry is cleared. No function reads it.
\<close>

definition init_sys :: sys where
  "init_sys = \<lparr>activeClients = Map.empty, qrCodes = Map.empty, connectionStatus = Map.empty,
     initializingClients = Map.empty, clients = [], promises = [], tasks = [],
     pending_deletes = (\<lambda>u. 0)\<rparr>"

text \<open>\<open>existingClient.info\<close>: the transport's readiness indicator of a client object.\<close>

definition client_info :: "sys \<Rightarrow> cid \<Rightarrow> bool" where
  "client_info s c = (c < length (clients s) \<and> info (clients s ! c))"

definition task_at :: "sys \<Rightarrow> tid \<Rightarrow> task option" where
  "task_at s t = (if t < length (tasks s) then Some (tasks s ! t) else None)"

definition spawn :: "task list \<Rightarrow> sys \<Rightarrow> sys" where
  "spawn ts s = s\<lparr>tasks := tasks s @ ts\<rparr>"

definition set_task :: "tid \<Rightarrow> task \<Rightarrow> sys \<Rightarrow> sys" where
  "set_task t k s = s\<lparr>tasks := (tasks s)[t := k]\<rparr>"

definition settle :: "pid \<Rightarrow> promise \<Rightarrow> sys \<Rightarrow> sys" where
  "settle p v s = s\<lparr>promises := (promises s)[p := v]\<rparr>"

subsection \<open>Getters\<close>

text \<open>\<open>qrCodes.get(userId) || null\<close>: an empty string is falsy.\<close>

definition getQRCode :: "sys \<Rightarrow> uid \<Rightarrow> string option" where
  "getQRCode s u = (case qrCodes s u of None \<Rightarrow> None | Some q \<Rightarrow> if q = [] then None else Some q)"

definition getConnectionStatus :: "sys \<Rightarrow> uid \<Rightarrow> status" where
  "getConnectionStatus s u = (case connectionStatus s u of None \<Rightarrow> NotInitialized | Some st \<Rightarrow> st)"

definition getClient :: "sys \<Rightarrow> uid \<Rightarrow> cid option" where
  "getClient s u = activeClients s u"

subsection \<open>hasSessionFiles\<close>

text \<open>
  What the two file-system reads of \<open>hasSessionFiles\<close> see: whether \<open>fs.access\<close> of the
  user's data directory succeeds, and the listing \<open>fs.readdir\<close> gives for its
  \<open>.wwebjs_auth\<close> folder (\<open>None\<close> when it throws). The function touches no map.
\<close>

record fs_view =
  data_dir_accessible :: bool
  auth_dir_listing :: "string list option"

definition hasSessionFiles :: "fs_view \<Rightarrow> bool" where
  "hasSessionFiles v =
     (if \<not> data_dir_accessible v then False
      else case auth_dir_listing v of None \<Rightarrow> False | Some files \<Rightarrow> length files > 0)"

subsection \<open>The shared tail of both coordinators\<close>

text \<open>The \<open>finally\<close> block of the async body: \<open>initializingClients.delete(userId)\<close>. The
  same statement stands in the outer \<open>catch\<close> blocks and in \<open>disconnectWhatsApp\<close>.\<close>

definition finally_clear :: "uid \<Rightarrow> sys \<Rightarrow> sys" where
  "finally_clear u s =
     s\<lparr>initializingClients := (initializingClients s)(u := None),
       pending_deletes := (pending_deletes s)(u := Suc (pending_deletes s u))\<rparr>"

text \<open>
  \<open>return await initPromise\<close> inside the outer \<open>try\<close>: the caller resumes once the promise
  has settled; on rejection the outer \<open>catch\<close> deletes the pending entry and rethrows.
\<close>

definition resume_await :: "tid \<Rightarrow> uid \<Rightarrow> pid \<Rightarrow> sys \<Rightarrow> sys" where
  "resume_await t u p s =
     (if p < length (promises s) then
        (case promises s ! p of
           Pending \<Rightarrow> s
         | Fulfilled r \<Rightarrow> set_task t (Finished (Returned r)) s
         | Rejected e \<Rightarrow> set_task t (Finished (Threw e)) (finally_clear u s))
      else s)"

subsection \<open>initializeWhatsApp\<close>

definition init_already_connected :: result where
  "init_already_connected =
     \<lparr>success = True, connected = True, hasSession = None,
      message = ''WhatsApp already connected''\<rparr>"

definition init_already_initializing :: result where
  "init_already_initializing =
     \<lparr>success = True, connected = False, hasSession = None,
      message = ''WhatsApp client is already initializing''\<rparr>"

definition init_waiting_for_qr :: result where
  "init_waiting_for_qr =
     \<lparr>success = True, connected = False, hasSession = None,
      message = ''WhatsApp client initialized. Waiting for QR code...''\<rparr>"

text \<open>
  From \<open>// Check if already initializing\<close> on: await the stored promise, or start the
  async body (which runs up to \<open>await fs.mkdir\<close>), store its promise and await it.
\<close>

definition init_coalesce_or_start :: "uid \<Rightarrow> sys \<Rightarrow> sys" where
  "init_coalesce_or_start u s =
     (case initializingClients s u of
        Some p \<Rightarrow> spawn [AwaitPromise u p] s
      | None \<Rightarrow>
          (let p = length (promises s)
           in s\<lparr>initializingClients := (initializingClients s)(u \<mapsto> p),
                promises := promises s @ [Pending],
                tasks := tasks s @ [AwaitPromise u p, InitAwaitMkdir u p]\<rparr>))"

definition initializeWhatsApp :: "uid \<Rightarrow> sys \<Rightarrow> sys" where
  "initializeWhatsApp u s =
     (case activeClients s u of
        Some c \<Rightarrow>
          if client_info s c then spawn [Finished (Returned init_already_connected)] s
          else if connectionStatus s u = Some Initializing
                  \<or> connectionStatus s u = Some Restoring
                  \<or> connectionStatus s u = Some QrReady
          then spawn [Finished (Returned init_already_initializing)] s
          else init_coalesce_or_start u s
      | None \<Rightarrow> init_coalesce_or_start u s)"

text \<open>The \<open>catch\<close> block of the async body of \<open>initializeWhatsApp\<close>.\<close>

definition init_catch :: "uid \<Rightarrow> sys \<Rightarrow> sys" where
  "init_catch u s =
     s\<lparr>activeClients := (activeClients s)(u := None),
       qrCodes := (qrCodes s)(u := None),
       connectionStatus := (connectionStatus s)(u := None)\<rparr>"

text \<open>
  The body after \<open>fs.mkdir\<close> settles. On success it constructs the client, stores it,
  sets the status, registers the handlers and calls \<open>client.initialize()\<close>. A failure
  (of \<open>mkdir\<close>, or of the constructor before the client is stored) goes through
  \<open>catch\<close> and \<open>finally\<close> and rejects the promise.
\<close>

definition init_after_mkdir :: "tid \<Rightarrow> uid \<Rightarrow> pid \<Rightarrow> error option \<Rightarrow> sys \<Rightarrow> sys" where
  "init_after_mkdir t u p r s =
     (case r of
        None \<Rightarrow>
          (let c = length (clients s)
           in set_task t (InitAwaitConnect u p c)
                (s\<lparr>clients := clients s @ [\<lparr>owner = u, wired = InitHandlers, info = False\<rparr>],
                   activeClients := (activeClients s)(u \<mapsto> c),
                   connectionStatus := (connectionStatus s)(u \<mapsto> Initializing)\<rparr>))
      | Some e \<Rightarrow>
          set_task t BodyDone (settle p (Rejected e) (finally_clear u (init_catch u s))))"

text \<open>The body after \<open>client.initialize()\<close> settles.\<close>

definition init_after_connect :: "tid \<Rightarrow> uid \<Rightarrow> pid \<Rightarrow> error option \<Rightarrow> sys \<Rightarrow> sys" where
  "init_after_connect t u p r s =
     (case r of
        None \<Rightarrow> set_task t BodyDone (settle p (Fulfilled init_waiting_for_qr) (finally_clear u s))
      | Some e \<Rightarrow>
          set_task t BodyDone (settle p (Rejected e) (finally_clear u (init_catch u s))))"

subsection \<open>restoreWhatsAppSession\<close>

definition restore_already_connected :: result where
  "restore_already_connected =
     \<lparr>success = True, connected = True, hasSession = Some True,
      message = ''WhatsApp already connected''\<rparr>"

definition restore_restored :: result where
  "restore_restored =
     \<lparr>success = True, connected = True, hasSession = Some True,
      message = ''WhatsApp session restored''\<rparr>"

definition restore_no_session :: result where
  "restore_no_session =
     \<lparr>success = True, connected = False, hasSession = Some False,
      message = ''No existing session found''\<rparr>"

definition restore_success :: result where
  "restore_success =
     \<lparr>success = True, connected = True, hasSession = Some True,
      message = ''WhatsApp session restored successfully''\<rparr>"

definition restore_not_yet :: result where
  "restore_not_yet =
     \<lparr>success = True, connected = False, hasSession = Some True,
      message = ''Session files found but not connected yet''\<rparr>"

text \<open>
  From \<open>// Check if already initializing\<close> on: await the stored promise, or go on to
  \<open>await hasSessionFiles(userId)\<close>.
\<close>

definition restore_coalesce_or_check :: "tid option \<Rightarrow> uid \<Rightarrow> sys \<Rightarrow> sys" where
  "restore_coalesce_or_check t u s =
     (let k = (case initializingClients s u of
                 Some p \<Rightarrow> AwaitPromise u p
               | None \<Rightarrow> RestoreAwaitFiles u)
      in case t of None \<Rightarrow> spawn [k] s | Some t' \<Rightarrow> set_task t' k s)"

text \<open>
  The first segment. A client that exists but is not ready, with status \<open>restoring\<close> or
  \<open>initializing\<close>, makes the function sleep \<open>setTimeout(resolve, 2000)\<close>, keeping
  \<open>existingClient\<close>.
\<close>

definition restore_wait_ms :: nat where
  "restore_wait_ms = 2000"

definition restoreWhatsAppSession :: "uid \<Rightarrow> sys \<Rightarrow> sys" where
  "restoreWhatsAppSession u s =
     (case activeClients s u of
        Some c \<Rightarrow>
          if client_info s c then spawn [Finished (Returned restore_already_connected)] s
          else if connectionStatus s u = Some Restoring
                  \<or> connectionStatus s u = Some Initializing
          then spawn [RestoreAwaitTimer u c] s
          else restore_coalesce_or_check None u s
      | None \<Rightarrow> restore_coalesce_or_check None u s)"

text \<open>After the 2000 ms sleep: \<open>existingClient.info\<close> is read again.\<close>

definition restore_after_wait :: "tid \<Rightarrow> uid \<Rightarrow> cid \<Rightarrow> sys \<Rightarrow> sys" where
  "restore_after_wait t u c s =
     (if client_info s c then set_task t (Finished (Returned restore_restored)) s
      else restore_coalesce_or_check (Some t) u s)"

text \<open>
  After \<open>hasSessionFiles\<close> answered: without files the function returns; with files it
  starts the async body (up to \<open>await fs.mkdir\<close>), stores its promise and awaits it. The
  pending map is not read again here.
\<close>

definition restore_after_files :: "tid \<Rightarrow> uid \<Rightarrow> fs_view \<Rightarrow> sys \<Rightarrow> sys" where
  "restore_after_files t u v s =
     (if \<not> hasSessionFiles v then set_task t (Finished (Returned restore_no_session)) s
      else
        (let p = length (promises s)
         in s\<lparr>initializingClients := (initializingClients s)(u \<mapsto> p),
              promises := promises s @ [Pending],
              tasks := (tasks s)[t := AwaitPromise u p] @ [RestoreAwaitMkdir u p]\<rparr>))"

text \<open>The \<open>catch\<close> block of the async body of \<open>restoreWhatsAppSession\<close>: it leaves
  \<open>qrCodes\<close> alone.\<close>

definition restore_catch :: "uid \<Rightarrow> sys \<Rightarrow> sys" where
  "restore_catch u s =
     s\<lparr>activeClients := (activeClients s)(u := None),
       connectionStatus := (connectionStatus s)(u := None)\<rparr>"

definition restore_after_mkdir :: "tid \<Rightarrow> uid \<Rightarrow> pid \<Rightarrow> error option \<Rightarrow> sys \<Rightarrow> sys" where
  "restore_after_mkdir t u p r s =
     (case r of
        None \<Rightarrow>
          (let c = length (clients s)
           in set_task t (RestoreAwaitConnect u p c)
                (s\<lparr>clients := clients s @ [\<lparr>owner = u, wired = RestoreHandlers, info = False\<rparr>],
                   activeClients := (activeClients s)(u \<mapsto> c),
                   connectionStatus := (connectionStatus s)(u \<mapsto> Restoring)\<rparr>))
      | Some e \<Rightarrow>
          set_task t BodyDone (settle p (Rejected e) (finally_clear u (restore_catch u s))))"

text \<open>After \<open>client.initialize()\<close>: on success the body sleeps 2000 ms.\<close>

definition restore_after_connect :: "tid \<Rightarrow> uid \<Rightarrow> pid \<Rightarrow> cid \<Rightarrow> error option \<Rightarrow> sys \<Rightarrow> sys" where
  "restore_after_connect t u p c r s =
     (case r of
        None \<Rightarrow> set_task t (RestoreAwaitSettle u p c) s
      | Some e \<Rightarrow>
          set_task t BodyDone (settle p (Rejected e) (finally_clear u (restore_catch u s))))"

text \<open>After that sleep: \<open>if (client.info)\<close> decides the result; then \<open>finally\<close>.\<close>

definition restore_after_settle :: "tid \<Rightarrow> uid \<Rightarrow> pid \<Rightarrow> cid \<Rightarrow> sys \<Rightarrow> sys" where
  "restore_after_settle t u p c s =
     (if client_info s c then
        set_task t BodyDone
          (settle p (Fulfilled restore_success)
             (finally_clear u (s\<lparr>connectionStatus := (connectionStatus s)(u \<mapsto> Connected)\<rparr>)))
      else set_task t BodyDone (settle p (Fulfilled restore_not_yet) (finally_clear u s)))"

subsection \<open>disconnectWhatsApp\<close>

text \<open>The three deletions after the guarded \<open>logout\<close> and \<open>destroy\<close>.\<close>

definition disconnect_cleanup :: "uid \<Rightarrow> sys \<Rightarrow> sys" where
  "disconnect_cleanup u s =
     s\<lparr>activeClients := (activeClients s)(u := None),
       qrCodes := (qrCodes s)(u := None),
       connectionStatus := (connectionStatus s)(u := None)\<rparr>"

text \<open>
  The first segment deletes the pending entry, then either awaits \<open>client.logout()\<close> or,
  with no client, cleans up and returns.
\<close>

definition disconnectWhatsApp :: "uid \<Rightarrow> sys \<Rightarrow> sys" where
  "disconnectWhatsApp u s =
     (let s1 = finally_clear u s
      in case activeClients s1 u of
           Some c \<Rightarrow> spawn [DiscAwaitLogout u c] s1
         | None \<Rightarrow> spawn [Finished ReturnedVoid] (disconnect_cleanup u s1))"

text \<open>\<open>logout\<close> settled; its error, if any, is caught and logged. Next \<open>client.destroy()\<close>.\<close>

definition disconnect_after_logout :: "tid \<Rightarrow> uid \<Rightarrow> cid \<Rightarrow> error option \<Rightarrow> sys \<Rightarrow> sys" where
  "disconnect_after_logout t u c r s = set_task t (DiscAwaitDestroy u c) s"

text \<open>\<open>destroy\<close> settled; its error, if any, is caught and logged. Then the deletions.\<close>

definition disconnect_after_destroy :: "tid \<Rightarrow> uid \<Rightarrow> cid \<Rightarrow> error option \<Rightarrow> sys \<Rightarrow> sys" where
  "disconnect_after_destroy t u c r s =
     set_task t (Finished ReturnedVoid) (disconnect_cleanup u s)"

text \<open>
  The outer \<open>catch\<close> of \<open>disconnectWhatsApp\<close>: all four deletions, then \<open>throw error\<close>. The
  statements of the \<open>try\<close> block outside the two guarded awaits are map operations and
  logging, so no segment above leads here; the block is kept as the code has it.
\<close>

definition disconnect_catch :: "tid \<Rightarrow> uid \<Rightarrow> error \<Rightarrow> sys \<Rightarrow> sys" where
  "disconnect_catch t u e s =
     set_task t (Finished (Threw e)) (finally_clear u (disconnect_cleanup u s))"

subsection \<open>Lifecycle handlers\<close>

datatype lifecycle = Qr string | Ready | AuthenticatedEv | AuthFailureEv | DisconnectedEv

text \<open>
  The handlers close over \<open>userId\<close>, not over the client. \<open>Qr url\<close> stands for the \<open>qr\<close>
  event whose \<open>qrcode.toDataURL\<close> has resolved to \<open>url\<close>; the handler does nothing before
  that, and nothing at all when the conversion throws. A restored client has no \<open>qr\<close>
  handler.
\<close>

fun on_event :: "handlers \<Rightarrow> uid \<Rightarrow> lifecycle \<Rightarrow> sys \<Rightarrow> sys" where
  "on_event InitHandlers u (Qr url) s =
     s\<lparr>qrCodes := (qrCodes s)(u \<mapsto> url),
       connectionStatus := (connectionStatus s)(u \<mapsto> QrReady)\<rparr>"
| "on_event InitHandlers u Ready s =
     s\<lparr>connectionStatus := (connectionStatus s)(u \<mapsto> Connected),
       qrCodes := (qrCodes s)(u := None)\<rparr>"
| "on_event InitHandlers u AuthenticatedEv s =
     s\<lparr>connectionStatus := (connectionStatus s)(u \<mapsto> Authenticated)\<rparr>"
| "on_event InitHandlers u AuthFailureEv s =
     s\<lparr>connectionStatus := (connectionStatus s)(u \<mapsto> AuthFailure),
       activeClients := (activeClients s)(u := None),
       qrCodes := (qrCodes s)(u := None)\<rparr>"
| "on_event InitHandlers u DisconnectedEv s =
     s\<lparr>connectionStatus := (connectionStatus s)(u \<mapsto> Disconnected),
       activeClients := (activeClients s)(u := None),
       qrCodes := (qrCodes s)(u := None)\<rparr>"
| "on_event RestoreHandlers u (Qr url) s = s"
| "on_event RestoreHandlers u Ready s =
     s\<lparr>connectionStatus := (connectionStatus s)(u \<mapsto> Connected)\<rparr>"
| "on_event RestoreHandlers u AuthenticatedEv s =
     s\<lparr>connectionStatus := (connectionStatus s)(u \<mapsto> Authenticated)\<rparr>"
| "on_event RestoreHandlers u AuthFailureEv s =
     s\<lparr>connectionStatus := (connectionStatus s)(u \<mapsto> AuthFailure),
       activeClients := (activeClients s)(u := None)\<rparr>"
| "on_event RestoreHandlers u DisconnectedEv s =
     s\<lparr>connectionStatus := (connectionStatus s)(u \<mapsto> Disconnected),
       activeClients := (activeClients s)(u := None)\<rparr>"

definition emit :: "cid \<Rightarrow> lifecycle \<Rightarrow> sys \<Rightarrow> sys" where
  "emit c ev s =
     (if c < length (clients s)
      then on_event (wired (clients s ! c)) (owner (clients s ! c)) ev s
      else s)"

text \<open>The transport changes a client's readiness indicator by itself.\<close>

definition set_info :: "cid \<Rightarrow> bool \<Rightarrow> sys \<Rightarrow> sys" where
  "set_info c b s =
     (if c < length (clients s)
      then s\<lparr>clients := (clients s)[c := (clients s ! c)\<lparr>info := b\<rparr>]\<rparr>
      else s)"

subsection \<open>The machine\<close>

datatype event =
    CallInitialize uid
  | CallRestore uid
  | CallDisconnect uid
  | MkdirDone tid "error option"
  | ConnectDone tid "error option"
  | TimerDone tid
  | FilesChecked tid fs_view
  | PromiseResume tid
  | LogoutDone tid "error option"
  | DestroyDone tid "error option"
  | Emit cid lifecycle
  | InfoChanges cid bool

text \<open>An event that does not fit the task it names is ignored.\<close>

fun step :: "event \<Rightarrow> sys \<Rightarrow> sys" where
  "step (CallInitialize u) s = initializeWhatsApp u s"
| "step (CallRestore u) s = restoreWhatsAppSession u s"
| "step (CallDisconnect u) s = disconnectWhatsApp u s"
| "step (MkdirDone t r) s =
     (case task_at s t of
        Some (InitAwaitMkdir u p) \<Rightarrow> init_after_mkdir t u p r s
      | Some (RestoreAwaitMkdir u p) \<Rightarrow> restore_after_mkdir t u p r s
      | _ \<Rightarrow> s)"
| "step (ConnectDone t r) s =
     (case task_at s t of
        Some (InitAwaitConnect u p c) \<Rightarrow> init_after_connect t u p r s
      | Some (RestoreAwaitConnect u p c) \<Rightarrow> restore_after_connect t u p c r s
      | _ \<Rightarrow> s)"
| "step (TimerDone t) s =
     (case task_at s t of
        Some (RestoreAwaitTimer u c) \<Rightarrow> restore_after_wait t u c s
      | Some (RestoreAwaitSettle u p c) \<Rightarrow> restore_after_settle t u p c s
      | _ \<Rightarrow> s)"
| "step (FilesChecked t v) s =
     (case task_at s t of
        Some (RestoreAwaitFiles u) \<Rightarrow> restore_after_files t u v s
      | _ \<Rightarrow> s)"
| "step (PromiseResume t) s =
     (case task_at s t of
        Some (AwaitPromise u p) \<Rightarrow> resume_await t u p s
      | _ \<Rightarrow> s)"
| "step (LogoutDone t r) s =
     (case task_at s t of
        Some (DiscAwaitLogout u c) \<Rightarrow> disconnect_after_logout t u c r s
      | _ \<Rightarrow> s)"
| "step (DestroyDone t r) s =
     (case task_at s t of
        Some (DiscAwaitDestroy u c) \<Rightarrow> disconnect_after_destroy t u c r s
      | _ \<Rightarrow> s)"
| "step (Emit c ev) s = emit c ev s"
| "step (InfoChanges c b) s = set_info c b s"

fun run :: "event list \<Rightarrow> sys \<Rightarrow> sys" where
  "run [] s = s"
| "run (ev # evs) s = run evs (step ev s)"


section \<open>The conversation and message gateway\<close>

text \<open>
  The gateway functions read the registry (\<open>getClient\<close>, \<open>client.info\<close>) and call the
  transport; they change no map. What the transport answers is their second input. Strings
  are byte strings (UTF-8). A field that may be \<open>undefined\<close> and is only ever used under
  \<open>||\<close> is a string, with the empty string for every falsy value.
\<close>

definition js_or :: "string \<Rightarrow> string \<Rightarrow> string" where
  "js_or a b = (if a = [] then b else a)"

text \<open>
  A promise of the transport settles after some milliseconds with a value or an error, or
  never. \<open>Promise.race\<close> against a \<open>setTimeout\<close> rejection of \<open>ms\<close> milliseconds gives the
  promise's result when it settles earlier, and the timeout error otherwise.
\<close>

datatype 'a fetch = Settles nat "error + 'a" | Never

definition race :: "'a fetch \<Rightarrow> nat \<Rightarrow> string \<Rightarrow> error + 'a" where
  "race f ms msg =
     (case f of
        Settles t r \<Rightarrow> if t < ms then r else Inl (Error msg)
      | Never \<Rightarrow> Inl (Error msg))"

record media =
  media_data :: string
  mimetype :: string

record wa_message =
  msg_id :: string
  body :: string
  mtype :: string
  msg_timestamp :: int
  fromMe :: bool
  ack :: int
  caption :: string
  hasMedia :: bool
  downloadMedia :: "media option fetch"

record contact =
  pushname :: string
  contact_name :: string
  number :: string
  getProfilePicUrl :: "string option fetch"

record raw_chat =
  chat_serialized :: string
  chat_user :: string
  chat_name :: string
  unreadCount :: nat
  isGroup :: bool
  isReadOnly :: bool
  getContact :: "contact fetch"
  fetchLast :: "wa_message list fetch"

record chat_handle =
  send :: "string \<Rightarrow> error + string"
  fetchMessages :: "nat \<Rightarrow> error + wa_message list"

text \<open>The date formatting of the host (\<open>toLocaleTimeString\<close>, \<open>toLocaleDateString\<close>), on
  milliseconds since the epoch.\<close>

record locale_fmt =
  time_of :: "int \<Rightarrow> string"
  weekday_of :: "int \<Rightarrow> string"
  monthday_of :: "int \<Rightarrow> string"

text \<open>
  The transport as one call sees it: \<open>later_ready k\<close> is \<open>client.info\<close> after the \<open>k\<close>-th
  500 ms sleep, \<open>clock\<close> is the host clock in milliseconds where the function reads it.
\<close>

record transport =
  later_ready :: "nat \<Rightarrow> bool"
  client_getChats :: "error + raw_chat list"
  client_getChatById :: "string \<Rightarrow> error + chat_handle option"
  clock :: nat
  fmt :: locale_fmt

subsection \<open>Waiting for readiness\<close>

definition ready_at :: "sys \<Rightarrow> cid \<Rightarrow> transport \<Rightarrow> nat \<Rightarrow> bool" where
  "ready_at s c env k = (if k = 0 then client_info s c else later_ready env k)"

text \<open>\<open>while (!client.info && attempts < 20) { await sleep(500); attempts++ }\<close>, giving the
  final \<open>attempts\<close>.\<close>

function poll_ready :: "(nat \<Rightarrow> bool) \<Rightarrow> nat \<Rightarrow> nat" where
  "poll_ready obs attempts =
     (if \<not> obs attempts \<and> attempts < 20 then poll_ready obs (attempts + 1) else attempts)"
  by pat_completeness auto
termination
  by (relation "measure (\<lambda>(obs, attempts). 20 - attempts)") auto

declare poll_ready.simps [simp del]

definition poll_interval_ms :: nat where
  "poll_interval_ms = 500"

text \<open>
  The readiness block shared by \<open>getChats\<close>, \<open>getChatMessages\<close> and \<open>getChatCount\<close>: the
  milliseconds slept, and the error thrown if the client is still not ready.
\<close>

definition await_ready :: "(nat \<Rightarrow> bool) \<Rightarrow> string \<Rightarrow> nat \<times> error option" where
  "await_ready obs msg =
     (if \<not> obs 0 then
        (let attempts = poll_ready obs 0
         in (poll_interval_ms * attempts,
             if \<not> obs attempts then Some (Error msg) else None))
      else (0, None))"

subsection \<open>getChats\<close>

record chat_summary =
  cs_id :: string
  cs_name :: string
  cs_phoneNumber :: string
  cs_avatar :: "string option"
  cs_lastMessage :: string
  cs_lastMessageType :: "string option"
  cs_lastMessageImage :: "string option"
  cs_timestamp :: string
  cs_unread :: nat
  cs_isGroup :: bool
  cs_isReadOnly :: bool

text \<open>Name, phone number and avatar: the contact, its picture, and the two \<open>catch\<close> blocks.\<close>

definition resolve_contact :: "raw_chat \<Rightarrow> string \<times> string \<times> string option" where
  "resolve_contact chat =
     (case race (getContact chat) 5000 ''Contact fetch timeout'' of
        Inr ct \<Rightarrow>
          (js_or (pushname ct) (js_or (contact_name ct) (js_or (number ct)
             (js_or (chat_name chat) ''Unknown''))),
           js_or (number ct) (chat_user chat),
           (case race (getProfilePicUrl ct) 3000 ''Profile pic timeout'' of
              Inr a \<Rightarrow> a
            | Inl err \<Rightarrow> None))
      | Inl err \<Rightarrow>
          (js_or (chat_name chat) (js_or (chat_user chat) ''Unknown''), chat_user chat, None))"

text \<open>The last message, \<open>null\<close> when the fetch fails, times out or gives no message.\<close>

definition last_message :: "raw_chat \<Rightarrow> wa_message option" where
  "last_message chat =
     (case race (fetchLast chat) 5000 ''Messages fetch timeout'' of
        Inr msgs \<Rightarrow> (case msgs of [] \<Rightarrow> None | m # rest \<Rightarrow> Some m)
      | Inl err \<Rightarrow> None)"

text \<open>\<open>Math.ceil(diffTime / (1000 * 60 * 60 * 24))\<close> on a non-negative difference.\<close>

definition diff_days :: "int \<Rightarrow> int \<Rightarrow> int" where
  "diff_days now msgDate = (\<bar>now - msgDate\<bar> + 86399999) div 86400000"

definition format_timestamp :: "locale_fmt \<Rightarrow> int \<Rightarrow> wa_message option \<Rightarrow> string" where
  "format_timestamp f now lm =
     (case lm of
        None \<Rightarrow> []
      | Some m \<Rightarrow>
          (let msgDate = msg_timestamp m * 1000; d = diff_days now msgDate
           in if d = 0 then time_of f msgDate
              else if d = 1 then ''Yesterday''
              else if d < 7 then weekday_of f msgDate
              else monthday_of f msgDate))"

definition emoji_camera :: string where
  "emoji_camera = [CHR 0xF0, CHR 0x9F, CHR 0x93, CHR 0xB7]"

definition emoji_video :: string where
  "emoji_video = [CHR 0xF0, CHR 0x9F, CHR 0x8E, CHR 0xA5]"

definition emoji_audio :: string where
  "emoji_audio = [CHR 0xF0, CHR 0x9F, CHR 0x8E, CHR 0xB5]"

definition emoji_document :: string where
  "emoji_document = [CHR 0xF0, CHR 0x9F, CHR 0x93, CHR 0x84]"

definition emoji_sticker :: string where
  "emoji_sticker = [CHR 0xF0, CHR 0x9F, CHR 0x8E, CHR 0xA8]"

text \<open>The preview of an image message: only with media that downloads within 3 s and is
  shorter than 100 KB.\<close>

definition image_preview :: "wa_message \<Rightarrow> string option" where
  "image_preview m =
     (if hasMedia m then
        (case race (downloadMedia m) 3000 ''Image download timeout'' of
           Inr (Some md) \<Rightarrow>
             if media_data md \<noteq> [] \<and> length (media_data md) < 102400
             then Some (''data:'' @ mimetype md @ '';base64,'' @ media_data md)
             else None
         | Inr None \<Rightarrow> None
         | Inl err \<Rightarrow> None)
      else None)"

definition summarize :: "wa_message option \<Rightarrow> string \<times> string option \<times> string option" where
  "summarize lm =
     (case lm of
        None \<Rightarrow> ([], None, None)
      | Some m \<Rightarrow>
          (if mtype m = ''image''
             then (js_or (caption m) (emoji_camera @ '' Image''), Some (mtype m), image_preview m)
           else if mtype m = ''video''
             then (js_or (caption m) (emoji_video @ '' Video''), Some (mtype m), None)
           else if mtype m = ''audio'' then (emoji_audio @ '' Audio'', Some (mtype m), None)
           else if mtype m = ''document''
             then (emoji_document @ '' '' @ js_or (body m) ''Document'', Some (mtype m), None)
           else if mtype m = ''sticker'' then (emoji_sticker @ '' Sticker'', Some (mtype m), None)
           else (js_or (body m) (''['' @ mtype m @ '']''), Some (mtype m), None)))"

definition format_chat :: "transport \<Rightarrow> raw_chat \<Rightarrow> chat_summary" where
  "format_chat env chat =
     (case resolve_contact chat of
        (contactName, phoneNumber, avatar) \<Rightarrow>
          (let lm = last_message chat
           in case summarize lm of
                (lastMessageText, lastMessageType, lastMessageImage) \<Rightarrow>
                  \<lparr>cs_id = chat_serialized chat,
                   cs_name = contactName,
                   cs_phoneNumber = phoneNumber,
                   cs_avatar = avatar,
                   cs_lastMessage = lastMessageText,
                   cs_lastMessageType = lastMessageType,
                   cs_lastMessageImage = lastMessageImage,
                   cs_timestamp = format_timestamp (fmt env) (int (clock env)) lm,
                   cs_unread = unreadCount chat,
                   cs_isGroup = isGroup chat,
                   cs_isReadOnly = isReadOnly chat\<rparr>))"

text \<open>
  The entry the outer \<open>catch\<close> of the per-chat callback returns. Every transport call of
  the callback sits in an inner \<open>try\<close>, so with the chat data above nothing reaches it.
\<close>

definition basic_chat_info :: "raw_chat \<Rightarrow> chat_summary" where
  "basic_chat_info chat =
     \<lparr>cs_id = chat_serialized chat,
      cs_name = js_or (chat_name chat) (js_or (chat_user chat) ''Unknown''),
      cs_phoneNumber = chat_user chat,
      cs_avatar = None,
      cs_lastMessage = [],
      cs_lastMessageType = None,
      cs_lastMessageImage = None,
      cs_timestamp = [],
      cs_unread = 0,
      cs_isGroup = isGroup chat,
      cs_isReadOnly = isReadOnly chat\<rparr>"

text \<open>The comparator given to \<open>formattedChats.sort\<close>, and the stable sort it drives.\<close>

definition cmp_timestamp :: "chat_summary \<Rightarrow> chat_summary \<Rightarrow> int" where
  "cmp_timestamp a b =
     (if cs_timestamp a = [] \<and> cs_timestamp b = [] then 0
      else if cs_timestamp a = [] then 1
      else if cs_timestamp b = [] then -1
      else 0)"

fun insert_by :: "('a \<Rightarrow> 'a \<Rightarrow> int) \<Rightarrow> 'a \<Rightarrow> 'a list \<Rightarrow> 'a list" where
  "insert_by cmp x [] = [x]"
| "insert_by cmp x (y # ys) = (if cmp x y \<le> 0 then x # y # ys else y # insert_by cmp x ys)"

definition js_sort :: "('a \<Rightarrow> 'a \<Rightarrow> int) \<Rightarrow> 'a list \<Rightarrow> 'a list" where
  "js_sort cmp xs = foldr (insert_by cmp) xs []"

definition not_ready_long :: string where
  "not_ready_long = ''WhatsApp client not ready. Please wait a moment and try again.''"

definition getChats :: "sys \<Rightarrow> uid \<Rightarrow> transport \<Rightarrow> nat \<times> (error + chat_summary list)" where
  "getChats s u env =
     (case getClient s u of
        None \<Rightarrow> (0, Inl (Error ''WhatsApp client not initialized''))
      | Some c \<Rightarrow>
          (case await_ready (ready_at s c env) not_ready_long of
             (ms, Some e) \<Rightarrow> (ms, Inl e)
           | (ms, None) \<Rightarrow>
               (case client_getChats env of
                  Inl e \<Rightarrow> (ms, Inl e)
                | Inr chats \<Rightarrow>
                    if length chats = 0 then (ms, Inr [])
                    else (ms, Inr (js_sort cmp_timestamp (map (format_chat env) chats))))))"

subsection \<open>getChatCount\<close>

definition getChatCount :: "sys \<Rightarrow> uid \<Rightarrow> transport \<Rightarrow> nat \<times> (error + nat)" where
  "getChatCount s u env =
     (case getClient s u of
        None \<Rightarrow> (0, Inl (Error ''WhatsApp client not initialized''))
      | Some c \<Rightarrow>
          (case await_ready (ready_at s c env) ''WhatsApp client not ready'' of
             (ms, Some e) \<Rightarrow> (ms, Inl e)
           | (ms, None) \<Rightarrow>
               (case client_getChats env of
                  Inl e \<Rightarrow> (ms, Inl e)
                | Inr chats \<Rightarrow> (ms, Inr (length chats)))))"

subsection \<open>getChatMessages\<close>

datatype delivery = Sent | Delivered | Read

record ui_message =
  ui_id :: string
  ui_text :: string
  ui_timestamp :: string
  ui_from_me :: bool
  ui_status :: "delivery option"
  ui_type :: string

definition format_message :: "locale_fmt \<Rightarrow> wa_message \<Rightarrow> ui_message" where
  "format_message f m =
     \<lparr>ui_id = msg_id m,
      ui_text = js_or (body m) (''['' @ mtype m @ '']''),
      ui_timestamp = time_of f (msg_timestamp m * 1000),
      ui_from_me = fromMe m,
      ui_status = (if fromMe m
                   then Some (if ack m = 3 then Read else if ack m = 2 then Delivered else Sent)
                   else None),
      ui_type = mtype m\<rparr>"

text \<open>\<open>chat.fetchMessages\<close> on a \<open>null\<close> chat is a TypeError of the runtime.\<close>

definition null_chat_error :: error where
  "null_chat_error = Error ''Cannot read properties of null''"

definition getChatMessages ::
  "sys \<Rightarrow> uid \<Rightarrow> string \<Rightarrow> transport \<Rightarrow> nat \<times> (error + ui_message list)" where
  "getChatMessages s u chatId env =
     (case getClient s u of
        None \<Rightarrow> (0, Inl (Error ''WhatsApp client not initialized''))
      | Some c \<Rightarrow>
          (case await_ready (ready_at s c env) not_ready_long of
             (ms, Some e) \<Rightarrow> (ms, Inl e)
           | (ms, None) \<Rightarrow>
               (case client_getChatById env chatId of
                  Inl e \<Rightarrow> (ms, Inl e)
                | Inr None \<Rightarrow> (ms, Inl null_chat_error)
                | Inr (Some chat) \<Rightarrow>
                    (case fetchMessages chat 100 of
                       Inl e \<Rightarrow> (ms, Inl e)
                     | Inr msgs \<Rightarrow> (ms, Inr (map (format_message (fmt env)) msgs))))))"

subsection \<open>sendMessage and its verification fallback\<close>

text \<open>
  \<open>String.prototype.trim\<close> removes the white space and line terminators of ECMAScript from
  both ends; here they are in UTF-8.
\<close>

definition js_whitespace :: "string list" where
  "js_whitespace =
     [[CHR 0x09], [CHR 0x0A], [CHR 0x0B], [CHR 0x0C], [CHR 0x0D], [CHR 0x20],
      [CHR 0xC2, CHR 0xA0], [CHR 0xE1, CHR 0x9A, CHR 0x80],
      [CHR 0xE2, CHR 0x80, CHR 0x80], [CHR 0xE2, CHR 0x80, CHR 0x81],
      [CHR 0xE2, CHR 0x80, CHR 0x82], [CHR 0xE2, CHR 0x80, CHR 0x83],
      [CHR 0xE2, CHR 0x80, CHR 0x84], [CHR 0xE2, CHR 0x80, CHR 0x85],
      [CHR 0xE2, CHR 0x80, CHR 0x86], [CHR 0xE2, CHR 0x80, CHR 0x87],
      [CHR 0xE2, CHR 0x80, CHR 0x88], [CHR 0xE2, CHR 0x80, CHR 0x89],
      [CHR 0xE2, CHR 0x80, CHR 0x8A], [CHR 0xE2, CHR 0x80, CHR 0xA8],
      [CHR 0xE2, CHR 0x80, CHR 0xA9], [CHR 0xE2, CHR 0x80, CHR 0xAF],
      [CHR 0xE2, CHR 0x81, CHR 0x9F], [CHR 0xE3, CHR 0x80, CHR 0x80],
      [CHR 0xEF, CHR 0xBB, CHR 0xBF]]"

function strip_prefixes :: "string list \<Rightarrow> string \<Rightarrow> string" where
  "strip_prefixes ws s =
     (case find (\<lambda>w. w \<noteq> [] \<and> prefix w s) ws of
        Some w \<Rightarrow> strip_prefixes ws (drop (length w) s)
      | None \<Rightarrow> s)"
  by pat_completeness auto
termination
  by (relation "measure (\<lambda>(ws, s). length s)")
     (auto simp: find_Some_iff prefix_def)

declare strip_prefixes.simps [simp del]

definition trim :: "string \<Rightarrow> string" where
  "trim s = rev (strip_prefixes (map rev js_whitespace) (rev (strip_prefixes js_whitespace s)))"

text \<open>\<open>String.prototype.includes\<close> is \<open>sublist\<close> with the arguments swapped.\<close>

definition js_includes :: "string \<Rightarrow> string \<Rightarrow> bool" where
  "js_includes s part = sublist part s"

definition benign_error :: "error \<Rightarrow> bool" where
  "benign_error e =
     (case e of Error m \<Rightarrow>
        m \<noteq> [] \<and> (js_includes m ''markedUnread''
                   \<or> js_includes m ''Cannot read properties of undefined''))"

definition text_matches :: "string \<Rightarrow> string \<Rightarrow> bool" where
  "text_matches msg_body sent =
     (let msgBody = trim msg_body; sentMessage = trim sent
      in msgBody = sentMessage \<or> js_includes msgBody sentMessage \<or> js_includes sentMessage msgBody)"

text \<open>\<open>timeDiff\<close> in milliseconds: \<open>now - msg.timestamp * 1000\<close>.\<close>

definition age_ms :: "int \<Rightarrow> wa_message \<Rightarrow> int" where
  "age_ms now m = now - msg_timestamp m * 1000"

text \<open>The \<open>for\<close> loop over the recent messages: the \<open>verifiedMessageId\<close> it breaks with.\<close>

fun verify_scan :: "int \<Rightarrow> string \<Rightarrow> wa_message list \<Rightarrow> string option" where
  "verify_scan now sent [] = None"
| "verify_scan now sent (m # ms) =
     (if fromMe m \<and> age_ms now m < 15000 then
        (if body m \<noteq> [] \<and> text_matches (body m) sent then Some (msg_id m)
         else if age_ms now m < 5000 then Some (msg_id m)
         else verify_scan now sent ms)
      else verify_scan now sent ms)"

definition digit_char :: "nat \<Rightarrow> char" where
  "digit_char d = ''0123456789'' ! d"

function decimal :: "nat \<Rightarrow> string" where
  "decimal n = (if n < 10 then [digit_char n] else decimal (n div 10) @ [digit_char (n mod 10)])"
  by pat_completeness auto
termination
  by (relation "measure id") auto

declare decimal.simps [simp del]

definition temp_id :: "nat \<Rightarrow> string" where
  "temp_id now = ''temp_'' @ decimal now"

definition settle_wait_ms :: nat where
  "settle_wait_ms = 2000"

text \<open>The \<open>catch (sendError)\<close> block: the milliseconds slept and what the function gives.\<close>

definition send_fallback ::
  "transport \<Rightarrow> chat_handle \<Rightarrow> string \<Rightarrow> error \<Rightarrow> nat \<times> (error + string)" where
  "send_fallback env chat msg sendError =
     (if benign_error sendError then
        (settle_wait_ms,
         case fetchMessages chat 10 of
           Inl verifyError \<Rightarrow> Inr (temp_id (clock env))
         | Inr recentMessages \<Rightarrow>
             (case verify_scan (int (clock env)) msg recentMessages of
                Some i \<Rightarrow> if i \<noteq> [] then Inr i else Inr (temp_id (clock env))
              | None \<Rightarrow> Inr (temp_id (clock env))))
      else (0, Inl sendError))"

definition sendMessage ::
  "sys \<Rightarrow> uid \<Rightarrow> string \<Rightarrow> string \<Rightarrow> transport \<Rightarrow> nat \<times> (error + string)" where
  "sendMessage s u chatId msg env =
     (case getClient s u of
        None \<Rightarrow> (0, Inl (Error ''WhatsApp client not connected''))
      | Some c \<Rightarrow>
          if \<not> client_info s c then (0, Inl (Error ''WhatsApp client not connected''))
          else
            (case client_getChatById env chatId of
               Inl e \<Rightarrow> (0, Inl e)
             | Inr None \<Rightarrow> (0, Inl (Error (''Chat '' @ chatId @ '' not found'')))
             | Inr (Some chat) \<Rightarrow>
                 (case send chat msg of
                    Inr sentId \<Rightarrow> (0, Inr sentId)
                  | Inl sendError \<Rightarrow> send_fallback env chat msg sendError)))"


section \<open>Notions used by the properties\<close>

text \<open>Events of the transport alone: a lifecycle event of a client, or a change of its
  readiness indicator. No function of the service is called or resumed by them.\<close>

fun lifecycle_event :: "event \<Rightarrow> bool" where
  "lifecycle_event (Emit c ev) = True"
| "lifecycle_event (InfoChanges c b) = True"
| "lifecycle_event ev = False"


text \<open>How the async body of \<open>initializeWhatsApp\<close> ends, given what \<open>fs.mkdir\<close> and
  \<open>client.initialize()\<close> did.\<close>

definition first_outcome :: "error option \<Rightarrow> error option \<Rightarrow> outcome" where
  "first_outcome r1 r2 =
     (case r1 of
        Some e \<Rightarrow> Threw e
      | None \<Rightarrow> (case r2 of None \<Rightarrow> Returned init_waiting_for_qr | Some e \<Rightarrow> Threw e))"

text \<open>
  What \<open>initializeWhatsApp\<close> sees of a user before it looks at the pending map: a stored
  client that is ready, or a stored client that is not ready with one of the three
  statuses of a running handshake.
\<close>

definition client_ready :: "sys \<Rightarrow> uid \<Rightarrow> bool" where
  "client_ready s u = (case activeClients s u of Some c \<Rightarrow> client_info s c | None \<Rightarrow> False)"

definition mid_handshake :: "sys \<Rightarrow> uid \<Rightarrow> bool" where
  "mid_handshake s u =
     (activeClients s u \<noteq> None
      \<and> (connectionStatus s u = Some Initializing \<or> connectionStatus s u = Some Restoring
           \<or> connectionStatus s u = Some QrReady))"

text \<open>The three ways a call of \<open>initializeWhatsApp\<close> can go while promise \<open>p\<close> is stored for
  its user, and what becomes of the caller once that promise has settled with \<open>out\<close>.\<close>

definition answer_while_pending :: "sys \<Rightarrow> uid \<Rightarrow> pid \<Rightarrow> task" where
  "answer_while_pending s u p =
     (if client_ready s u then Finished (Returned init_already_connected)
      else if mid_handshake s u then Finished (Returned init_already_initializing)
      else AwaitPromise u p)"

definition after_settle :: "task \<Rightarrow> outcome \<Rightarrow> task" where
  "after_settle k out = (case k of AwaitPromise u p \<Rightarrow> Finished out | other \<Rightarrow> k)"



text \<open>The test one iteration of the verification loop applies to a message.\<close>

definition acceptable :: "int \<Rightarrow> string \<Rightarrow> wa_message \<Rightarrow> bool" where
  "acceptable now sent m =
     (fromMe m \<and> age_ms now m < 15000
      \<and> ((body m \<noteq> [] \<and> text_matches (body m) sent) \<or> age_ms now m < 5000))"

definition has_timestamp :: "chat_summary \<Rightarrow> bool" where
  "has_timestamp x = (cs_timestamp x \<noteq> [])"

text \<open>The two invariants of the registry that the properties below rest on.\<close>

definition qr_inv :: "sys \<Rightarrow> bool" where
  "qr_inv s = (\<forall>u. connectionStatus s u = Some QrReady \<longrightarrow> qrCodes s u \<noteq> None)"


section \<open>Scenarios\<close>

text \<open>User \<open>u1\<close> after \<open>initializeWhatsApp\<close> has stored its client (not ready yet), and
  after the client became ready.\<close>

definition handshake_sys :: sys where
  "handshake_sys = run [CallInitialize ''u1'', MkdirDone 1 None] init_sys"

definition ready_sys :: sys where
  "ready_sys = run [CallInitialize ''u1'', MkdirDone 1 None, ConnectDone 1 None,
                    InfoChanges 0 True, Emit 0 Ready] init_sys"

definition plain_fmt :: locale_fmt where
  "plain_fmt =
     \<lparr>time_of = (\<lambda>t. ''10:00 AM''), weekday_of = (\<lambda>t. ''Mon''),
      monthday_of = (\<lambda>t. ''Jan 1'')\<rparr>"

definition soon_ready_env :: transport where
  "soon_ready_env =
     \<lparr>later_ready = (\<lambda>k. True), client_getChats = Inr [],
      client_getChatById = (\<lambda>i. Inr None), clock = 1000000000, fmt = plain_fmt\<rparr>"

definition never_ready_env :: transport where
  "never_ready_env = soon_ready_env\<lparr>later_ready := (\<lambda>k. False)\<rparr>"

text \<open>The second \<open>initializeWhatsApp\<close> arrives while the first awaits
  \<open>client.initialize()\<close>, which then fails.\<close>

definition late_second_call :: "event list" where
  "late_second_call =
     [CallInitialize ''u1'', MkdirDone 1 None, CallInitialize ''u1'',
      ConnectDone 1 (Some (Error ''Failed to launch the browser process'')), PromiseResume 0]"

text \<open>The second \<open>initializeWhatsApp\<close> arrives after the client of the first has emitted
  \<open>authenticated\<close>; then the connect fails.\<close>

definition second_call_after_authenticated :: "event list" where
  "second_call_after_authenticated =
     [CallInitialize ''u1'', MkdirDone 1 None, Emit 0 AuthenticatedEv, CallInitialize ''u1'',
      ConnectDone 1 (Some (Error ''Failed to launch the browser process'')),
      PromiseResume 0, PromiseResume 2]"



text \<open>The connected user disconnects; while \<open>logout\<close> is awaited the client emits
  \<open>disconnected\<close> and the user asks for a new connection.\<close>

definition reconnect_during_logout :: "event list" where
  "reconnect_during_logout =
     [CallDisconnect ''u1'', Emit 0 DisconnectedEv, CallInitialize ''u1'',
      LogoutDone 2 None, DestroyDone 2 None]"

text \<open>The usual pairing: the code is shown, then scanned.\<close>

definition qr_shown :: "event list" where
  "qr_shown =
     [CallInitialize ''u1'', MkdirDone 1 None, ConnectDone 1 None,
      Emit 0 (Qr ''data:image/png;base64,AAAA'')]"

definition qr_scanned :: "event list" where
  "qr_scanned = qr_shown @ [Emit 0 AuthenticatedEv]"

text \<open>A chat whose \<open>sendMessage\<close> throws the internal error; two own messages are recent,
  the older one sent four seconds ago, the newer one being the text just sent.\<close>

definition own_message :: "string \<Rightarrow> string \<Rightarrow> int \<Rightarrow> wa_message" where
  "own_message i b ts =
     \<lparr>msg_id = i, body = b, mtype = ''chat'', msg_timestamp = ts, fromMe = True, ack = 1,
      caption = [], hasMedia = False, downloadMedia = Never\<rparr>"

definition flaky_chat :: chat_handle where
  "flaky_chat =
     \<lparr>send = (\<lambda>m. Inl (Error ''Cannot read properties of undefined (reading markedUnread)'')),
      fetchMessages = (\<lambda>n. Inr [own_message ''msgA'' ''Thanks'' 999996,
                                 own_message ''msgB'' '' Hello '' 999998])\<rparr>"

definition flaky_env :: transport where
  "flaky_env = soon_ready_env\<lparr>client_getChatById := (\<lambda>i. Inr (Some flaky_chat))\<rparr>"

text \<open>The same chat when the verification fetch throws as well.\<close>

definition deaf_chat :: chat_handle where
  "deaf_chat = flaky_chat\<lparr>fetchMessages := (\<lambda>n. Inl (Error ''Evaluation failed''))\<rparr>"

definition deaf_env :: transport where
  "deaf_env = soon_ready_env\<lparr>client_getChatById := (\<lambda>i. Inr (Some deaf_chat))\<rparr>"

text \<open>A restore that finds credential files but is not connected after its wait, followed
  by a second restore for the same user.\<close>

definition with_files :: fs_view where
  "with_files = \<lparr>data_dir_accessible = True, auth_dir_listing = Some [''session'']\<rparr>"

definition no_files :: fs_view where
  "no_files = \<lparr>data_dir_accessible = True, auth_dir_listing = None\<rparr>"

definition restore_once :: "event list" where
  "restore_once =
     [CallRestore ''u1'', FilesChecked 0 with_files, MkdirDone 1 None, ConnectDone 1 None,
      TimerDone 1, PromiseResume 0]"

definition restore_twice :: "event list" where
  "restore_twice =
     restore_once @ [CallRestore ''u1'', TimerDone 2, FilesChecked 2 with_files, MkdirDone 3 None]"

text \<open>Two conversations: for the first every sub-fetch fails or hangs, the second answers.\<close>

definition broken_chat :: raw_chat where
  "broken_chat =
     \<lparr>chat_serialized = ''111@c.us'', chat_user = ''111'', chat_name = [], unreadCount = 2,
      isGroup = False, isReadOnly = False, getContact = Never,
      fetchLast = Settles 100 (Inl (Error ''Evaluation failed''))\<rparr>"

definition healthy_chat :: raw_chat where
  "healthy_chat =
     \<lparr>chat_serialized = ''222@c.us'', chat_user = ''222'', chat_name = ''Bob'', unreadCount = 0,
      isGroup = False, isReadOnly = False,
      getContact = Settles 20 (Inr \<lparr>pushname = ''Bobby'', contact_name = ''Bob'',
                     number = ''222'', getProfilePicUrl = Settles 10 (Inr None)\<rparr>),
      fetchLast = Settles 30 (Inr [own_message ''m1'' ''See you'' 999000])\<rparr>"

definition two_chats_env :: transport where
  "two_chats_env = soon_ready_env\<lparr>client_getChats := Inr [broken_chat, healthy_chat]\<rparr>"

section \<open>Auxiliary facts\<close>

lemmas seg_defs = initializeWhatsApp_def init_coalesce_or_start_def init_after_mkdir_def
  init_after_connect_def init_catch_def restoreWhatsAppSession_def restore_coalesce_or_check_def
  restore_after_wait_def restore_after_files_def restore_catch_def restore_after_mkdir_def
  restore_after_connect_def restore_after_settle_def disconnectWhatsApp_def disconnect_cleanup_def
  disconnect_after_logout_def disconnect_after_destroy_def finally_clear_def resume_await_def
  spawn_def set_task_def settle_def set_info_def

lemmas sym_defs = seg_defs task_at_def Let_def list_update_append nth_append

lemmas eval_defs = sym_defs init_sys_def hasSessionFiles_def client_info_def emit_def
  getClient_def

lemma run_append: "run (xs @ ys) s = run ys (run xs s)"
  by (induction xs arbitrary: s) auto

lemma handshake_sys_eval:
  "getClient handshake_sys ''u1'' = Some 0 \<and> \<not> client_info handshake_sys 0"
  by (simp add: handshake_sys_def eval_defs)

lemma ready_sys_eval:
  "getClient ready_sys ''u1'' = Some 0 \<and> client_info ready_sys 0
   \<and> activeClients ready_sys ''u1'' = Some 0 \<and> length (tasks ready_sys) = 2"
  by (simp add: ready_sys_def eval_defs)

subsection \<open>Transport events leave tasks, promises and pending operations alone\<close>

lemma on_event_frame:
  "tasks (on_event h u ev s) = tasks s
   \<and> initializingClients (on_event h u ev s) = initializingClients s
   \<and> promises (on_event h u ev s) = promises s \<and> clients (on_event h u ev s) = clients s"
  by (cases h; cases ev) auto

lemma map_update_same:
  assumes "\<And>x. f (g x) = f x"
  shows "map f (xs[i := g (xs ! i)]) = map f xs"
proof (rule nth_equalityI)
  show "length (map f (xs[i := g (xs ! i)])) = length (map f xs)" by simp
next
  fix j assume "j < length (map f (xs[i := g (xs ! i)]))"
  then show "map f (xs[i := g (xs ! i)]) ! j = map f xs ! j"
    by (cases "i = j") (simp_all add: assms)
qed

lemma lifecycle_step:
  "lifecycle_event ev \<Longrightarrow>
     tasks (step ev s) = tasks s \<and> initializingClients (step ev s) = initializingClients s
   \<and> promises (step ev s) = promises s
   \<and> length (clients (step ev s)) = length (clients s)"
  by (cases ev) (auto simp: emit_def on_event_frame set_info_def)

lemma lifecycle_run:
  "list_all lifecycle_event evs \<Longrightarrow>
     tasks (run evs s) = tasks s \<and> initializingClients (run evs s) = initializingClients s
   \<and> promises (run evs s) = promises s
   \<and> length (clients (run evs s)) = length (clients s)"
  by (induction evs arbitrary: s) (auto simp: lifecycle_step)

subsection \<open>A stored QR code whenever the status is \<open>qr_ready\<close>\<close>

lemma on_event_qr_inv: "qr_inv s \<Longrightarrow> qr_inv (on_event h u ev s)"
  by (cases h; cases ev) (auto simp: qr_inv_def)

lemma emit_qr_inv: "qr_inv s \<Longrightarrow> qr_inv (emit c ev s)"
  by (simp add: emit_def on_event_qr_inv)

lemma step_qr_inv: "qr_inv s \<Longrightarrow> qr_inv (step ev s)"
  apply (cases ev)
  apply (simp_all add: emit_qr_inv)
  apply (auto simp: seg_defs Let_def qr_inv_def task_at_def
           split: option.splits task.splits promise.splits if_splits)
  done

lemma run_qr_inv: "qr_inv s \<Longrightarrow> qr_inv (run evs s)"
  by (induction evs arbitrary: s) (auto simp: step_qr_inv)

lemma init_qr_inv: "qr_inv init_sys"
  by (simp add: qr_inv_def init_sys_def)


section \<open>Properties of the session lifecycle\<close>

subsection \<open>The pairing artifact and the status\<close>

text \<open>
  C2, as stated, fails. After the QR code was shown and scanned, the \<open>authenticated\<close>
  handler has set the status to \<open>authenticated\<close> and left the stored QR code in place:
  the artifact is present although the status is not \<open>qr_ready\<close>.
\<close>

theorem pairing_artifact_iff_qr_ready_counterexample:
  "\<not> (qrCodes (run qr_scanned init_sys) ''u1'' \<noteq> None
       \<longleftrightarrow> connectionStatus (run qr_scanned init_sys) ''u1'' = Some QrReady)"
  by (simp add: qr_scanned_def qr_shown_def eval_defs)

text \<open>
  C2, amended. In every state the service can reach, a status of \<open>qr_ready\<close> comes with a
  stored QR code. The handlers registered by \<open>initializeWhatsApp\<close> for \<open>ready\<close>,
  \<open>auth_failure\<close> and \<open>disconnected\<close>, and the cleanup of \<open>disconnectWhatsApp\<close>, remove
  the stored QR code of their user.
\<close>

theorem qr_ready_has_pairing_artifact:
  "(connectionStatus (run evs init_sys) u = Some QrReady
      \<longrightarrow> qrCodes (run evs init_sys) u \<noteq> None)
   \<and> qrCodes (on_event InitHandlers v Ready s) v = None
   \<and> qrCodes (on_event InitHandlers v AuthFailureEv s) v = None
   \<and> qrCodes (on_event InitHandlers v DisconnectedEv s) v = None
   \<and> qrCodes (disconnect_cleanup v s) v = None"
  using run_qr_inv[OF init_qr_inv, of evs] by (simp add: qr_inv_def disconnect_cleanup_def)

text \<open>The amended C2 at the state in which the QR code is shown to user \<open>u1\<close>.\<close>

theorem qr_ready_has_pairing_artifact_witness:
  "connectionStatus (run qr_shown init_sys) ''u1'' = Some QrReady
   \<and> qrCodes (run qr_shown init_sys) ''u1'' \<noteq> None
   \<and> qrCodes (on_event InitHandlers ''u1'' Ready (run qr_shown init_sys)) ''u1'' = None"
  using qr_ready_has_pairing_artifact[of qr_shown "''u1''" "''u1''" "run qr_shown init_sys"]
  by (simp add: qr_shown_def eval_defs)


subsection \<open>Two calls of initialize in rapid succession\<close>

text \<open>
  C1, as stated, fails. The second call arrives while the first awaits
  \<open>client.initialize()\<close>: the client is already stored with status \<open>initializing\<close>, so
  the second call returns at once with \<open>'WhatsApp client is already initializing'\<close> and
  never awaits the stored promise. When the connect then fails, the first caller gets the
  error: the two callers have seen different outcomes.
\<close>

theorem initialize_twice_identical_outcome_counterexample:
  "task_at (run late_second_call init_sys) 0
     = Some (Finished (Threw (Error ''Failed to launch the browser process'')))
   \<and> task_at (run late_second_call init_sys) 2
     = Some (Finished (Returned init_already_initializing))
   \<and> task_at (run late_second_call init_sys) 0 \<noteq> task_at (run late_second_call init_sys) 2"
  by (simp add: late_second_call_def eval_defs)

lemma lifecycle_step_active_none:
  "lifecycle_event ev \<Longrightarrow> activeClients s u = None \<Longrightarrow> activeClients (step ev s) u = None"
  apply (cases ev; simp add: emit_def set_info_def)
  subgoal for c l by (cases "wired (clients s ! c)"; cases l) auto
  done

lemma lifecycle_run_active_none:
  "list_all lifecycle_event evs \<Longrightarrow> activeClients s u = None \<Longrightarrow> activeClients (run evs s) u = None"
  by (induction evs arbitrary: s) (auto simp: lifecycle_step_active_none)

lemma initialize_while_pending:
  "initializingClients s u = Some p \<Longrightarrow>
     initializeWhatsApp u s = spawn [answer_while_pending s u p] s"
  by (auto simp: initializeWhatsApp_def init_coalesce_or_start_def answer_while_pending_def
        client_ready_def mid_handshake_def split: option.splits)

lemma answer_while_pending_cases:
  "answer_while_pending s u p = AwaitPromise u p
   \<or> answer_while_pending s u p = Finished (Returned init_already_initializing)
   \<or> answer_while_pending s u p = Finished (Returned init_already_connected)"
  by (simp add: answer_while_pending_def)

text \<open>
  C1, amended. Let user \<open>u\<close> have no client and no pending operation, let \<open>a\<close> and \<open>d\<close>
  be the tasks of the first and the second caller, and let the transport emit any
  lifecycle events between the steps (\<open>evs1\<close> to \<open>evs4\<close>, none included).

  If the second call arrives while the first is still creating the data directory
  (\<open>e1\<close>), it creates nothing and both callers await the same stored promise; both end
  with the same outcome whatever \<open>mkdir\<close> (\<open>r1\<close>) and the connect (\<open>r2\<close>) do (\<open>e4\<close>), and
  one client has been created, none if \<open>mkdir\<close> failed.

  If it arrives after the client was stored and before the connect settles (in state
  \<open>l1\<close>), it creates nothing either, and it is answered in one of three ways (\<open>l2\<close>): at
  once with \<open>'WhatsApp already connected'\<close> if the stored client is ready; at once with
  \<open>'WhatsApp client is already initializing'\<close> if a client is stored, not ready, and the
  status is \<open>initializing\<close>, \<open>restoring\<close> or \<open>qr_ready\<close> (so always when no lifecycle event
  came before it); otherwise, after an \<open>authenticated\<close>, \<open>auth_failure\<close> or
  \<open>disconnected\<close> event, by awaiting the stored promise. In the end (\<open>l4\<close>) the first
  caller has the outcome of its own connect, the second has it too if it awaited and
  keeps its at-once answer if not, and exactly one client has been created.
\<close>

theorem initialize_twice_coalesces_or_answers_at_once:
  assumes "activeClients s u = None" "initializingClients s u = None"
    and "list_all lifecycle_event evs1" "list_all lifecycle_event evs2"
        "list_all lifecycle_event evs3" "list_all lifecycle_event evs4"
  shows "let a = length (tasks s); b = a + 1; d = a + 2; c = length (clients s);
             p = length (promises s);
             first = step (CallInitialize u) s;
             e1 = step (CallInitialize u) (run evs1 first);
             e4 = run [PromiseResume a, PromiseResume d]
                    (run evs4 (step (ConnectDone b r2)
                      (run evs3 (step (MkdirDone b r1) (run evs2 e1)))));
             l1 = run evs2 (step (MkdirDone b None) (run evs1 first));
             l2 = step (CallInitialize u) l1;
             l4 = run [PromiseResume a, PromiseResume d]
                    (run evs4 (step (ConnectDone b r2) (run evs3 l2)))
         in task_at e1 a = Some (AwaitPromise u p) \<and> task_at e1 d = Some (AwaitPromise u p)
            \<and> clients e1 = clients (run evs1 first)
            \<and> task_at e4 a = Some (Finished (first_outcome r1 r2))
            \<and> task_at e4 d = Some (Finished (first_outcome r1 r2))
            \<and> length (clients e4) = (if r1 = None then c + 1 else c)
            \<and> task_at l2 d = Some (answer_while_pending l1 u p)
            \<and> clients l2 = clients l1
            \<and> task_at l4 a = Some (Finished (first_outcome None r2))
            \<and> task_at l4 d
                 = Some (after_settle (answer_while_pending l1 u p) (first_outcome None r2))
            \<and> length (clients l4) = c + 1
            \<and> answer_while_pending (step (MkdirDone b None) (run evs1 first)) u p
                 = Finished (Returned init_already_initializing)"
proof -
  define a where "a = length (tasks s)"
  define b where "b = a + 1"
  define d where "d = a + 2"
  define c where "c = length (clients s)"
  define p where "p = length (promises s)"
  define out where "out = first_outcome r1 r2"
  define first where "first = step (CallInitialize u) s"
  define f' where "f' = run evs1 first"
  define e1 where "e1 = step (CallInitialize u) f'"
  define e1' where "e1' = run evs2 e1"
  define e2 where "e2 = step (MkdirDone b r1) e1'"
  define e2' where "e2' = run evs3 e2"
  define e3 where "e3 = step (ConnectDone b r2) e2'"
  define e3' where "e3' = run evs4 e3"
  define e4 where "e4 = run [PromiseResume a, PromiseResume d] e3'"
  define m where "m = step (MkdirDone b None) f'"
  define l1 where "l1 = run evs2 m"
  define k where "k = answer_while_pending l1 u p"
  define l2 where "l2 = step (CallInitialize u) l1"
  define l2' where "l2' = run evs3 l2"
  define l3 where "l3 = step (ConnectDone b r2) l2'"
  define l3' where "l3' = run evs4 l3"
  define l4 where "l4 = run [PromiseResume a, PromiseResume d] l3'"
  have f: "tasks first = tasks s @ [AwaitPromise u p, InitAwaitMkdir u p]"
    "promises first = promises s @ [Pending]" "initializingClients first u = Some p"
    "length (clients first) = c" "activeClients first u = None"
    using assms(1,2) by (simp_all add: first_def p_def c_def seg_defs Let_def)
  have f': "tasks f' = tasks s @ [AwaitPromise u p, InitAwaitMkdir u p]"
    "promises f' = promises s @ [Pending]" "initializingClients f' u = Some p"
    "length (clients f') = c" "activeClients f' u = None"
    using f lifecycle_run[OF assms(3), of first] lifecycle_run_active_none[OF assms(3) f(5)]
    by (simp_all add: f'_def)
  have e1: "tasks e1 = tasks s @ [AwaitPromise u p, InitAwaitMkdir u p, AwaitPromise u p]"
    "promises e1 = promises s @ [Pending]" "clients e1 = clients f'"
    using f' by (simp_all add: e1_def seg_defs Let_def)
  have e1': "tasks e1' = tasks s @ [AwaitPromise u p, InitAwaitMkdir u p, AwaitPromise u p]"
    "promises e1' = promises s @ [Pending]" "length (clients e1') = c"
    using e1 f'(4) lifecycle_run[OF assms(4), of e1] by (simp_all add: e1'_def)
  have e2: "tasks e2 = tasks s @ [AwaitPromise u p,
               (case r1 of None \<Rightarrow> InitAwaitConnect u p c | Some e \<Rightarrow> BodyDone), AwaitPromise u p]"
    "promises e2 = promises s @ [case r1 of None \<Rightarrow> Pending | Some e \<Rightarrow> Rejected e]"
    "length (clients e2) = (if r1 = None then c + 1 else c)"
    using e1' by (cases r1; simp add: e2_def a_def b_def p_def sym_defs)+
  have e2': "tasks e2' = tasks e2" "promises e2' = promises e2"
    "length (clients e2') = (if r1 = None then c + 1 else c)"
    using e2 lifecycle_run[OF assms(5), of e2] by (simp_all add: e2'_def)
  have e3: "tasks e3 = tasks s @ [AwaitPromise u p, BodyDone, AwaitPromise u p]"
    "promises e3 = promises s @ [case out of Returned x \<Rightarrow> Fulfilled x | Threw e \<Rightarrow> Rejected e
                                   | ReturnedVoid \<Rightarrow> Pending]"
    "length (clients e3) = (if r1 = None then c + 1 else c)"
    using e2 e2' by (cases r1; cases r2;
        simp add: e3_def a_def b_def p_def out_def first_outcome_def sym_defs)+
  have e3': "tasks e3' = tasks e3" "promises e3' = promises e3"
    "length (clients e3') = (if r1 = None then c + 1 else c)"
    using e3 lifecycle_run[OF assms(6), of e3] by (simp_all add: e3'_def)
  have e4: "task_at e4 a = Some (Finished out)" "task_at e4 d = Some (Finished out)"
    "length (clients e4) = (if r1 = None then c + 1 else c)"
    using e3 e3' by (cases r1; cases r2;
        simp add: e4_def a_def d_def p_def out_def first_outcome_def sym_defs)+
  have m: "tasks m = tasks s @ [AwaitPromise u p, InitAwaitConnect u p c]"
    "promises m = promises s @ [Pending]" "initializingClients m u = Some p"
    "length (clients m) = c + 1"
    using f' by (simp_all add: m_def a_def b_def sym_defs)
  have l1: "tasks l1 = tasks s @ [AwaitPromise u p, InitAwaitConnect u p c]"
    "promises l1 = promises s @ [Pending]" "initializingClients l1 u = Some p"
    "length (clients l1) = c + 1"
    using m lifecycle_run[OF assms(4), of m] by (simp_all add: l1_def)
  have l2: "tasks l2 = tasks s @ [AwaitPromise u p, InitAwaitConnect u p c, k]"
    "promises l2 = promises s @ [Pending]" "clients l2 = clients l1"
    using l1 initialize_while_pending[OF l1(3)] by (simp_all add: l2_def k_def spawn_def)
  have l2': "tasks l2' = tasks l2" "promises l2' = promises l2" "length (clients l2') = c + 1"
    using l2 l1(4) lifecycle_run[OF assms(5), of l2] by (simp_all add: l2'_def)
  define out2 where "out2 = first_outcome None r2"
  have l3: "tasks l3 = tasks s @ [AwaitPromise u p, BodyDone, k]"
    "promises l3 = promises s @ [case r2 of None \<Rightarrow> Fulfilled init_waiting_for_qr
                                   | Some e \<Rightarrow> Rejected e]"
    "length (clients l3) = c + 1"
    using l2 l2' by (cases r2; simp add: l3_def a_def b_def p_def sym_defs)+
  have l3': "tasks l3' = tasks l3" "promises l3' = promises l3" "length (clients l3') = c + 1"
    using l3 lifecycle_run[OF assms(6), of l3] by (simp_all add: l3'_def)
  have l4: "task_at l4 a = Some (Finished out2)" "task_at l4 d = Some (after_settle k out2)"
    "length (clients l4) = c + 1"
    using l3 l3' answer_while_pending_cases[of l1 u p]
    by (cases r2; auto simp: l4_def a_def d_def p_def k_def out2_def first_outcome_def
          after_settle_def sym_defs)+
  have quiet: "answer_while_pending m u p = Finished (Returned init_already_initializing)"
    using f' by (simp add: m_def a_def b_def sym_defs answer_while_pending_def
        client_ready_def mid_handshake_def client_info_def)
  have t1: "task_at e1 a = Some (AwaitPromise u p)" "task_at e1 d = Some (AwaitPromise u p)"
    using e1 by (simp_all add: task_at_def a_def d_def nth_append)
  have t2: "task_at l2 d = Some k"
    using l2 by (simp add: task_at_def a_def d_def nth_append)
  show ?thesis
    unfolding Let_def
    using t1 e1(3) e4 t2 l2(3) l4 quiet
    unfolding l4_def l3'_def l3_def l2'_def l2_def k_def l1_def m_def e4_def e3'_def e3_def
      e2'_def e2_def e1'_def e1_def f'_def first_def out_def out2_def a_def b_def c_def d_def
      p_def
    by blast
qed

text \<open>The amended C1 for user \<open>u1\<close> on the empty registry: the client emits
  \<open>authenticated\<close>, then the second call arrives and awaits the stored promise, then the
  connect fails. Both callers get the error, and one client was created.\<close>

theorem initialize_twice_coalesces_or_answers_at_once_witness:
  "activeClients init_sys ''u1'' = None \<and> initializingClients init_sys ''u1'' = None
   \<and> list_all lifecycle_event [] \<and> list_all lifecycle_event [Emit 0 AuthenticatedEv]
   \<and> task_at (run second_call_after_authenticated init_sys) 0
       = Some (Finished (Threw (Error ''Failed to launch the browser process'')))
   \<and> task_at (run second_call_after_authenticated init_sys) 2
       = Some (Finished (Threw (Error ''Failed to launch the browser process'')))
   \<and> length (clients (run second_call_after_authenticated init_sys)) = 1"
proof -
  have h1: "activeClients init_sys ''u1'' = None" by (simp add: init_sys_def)
  have h2: "initializingClients init_sys ''u1'' = None" by (simp add: init_sys_def)
  have h3: "list_all lifecycle_event []" by simp
  have h4: "list_all lifecycle_event [Emit 0 AuthenticatedEv]" by simp
  note T = initialize_twice_coalesces_or_answers_at_once
             [OF h1 h2 h3 h4 h3 h3, of None "Some (Error ''Failed to launch the browser process'')",
              unfolded Let_def]
  note rest = T[THEN conjunct2, THEN conjunct2, THEN conjunct2, THEN conjunct2,
                THEN conjunct2, THEN conjunct2, THEN conjunct2, THEN conjunct2]
  have first: "task_at (run second_call_after_authenticated init_sys) 0
       = Some (Finished (Threw (Error ''Failed to launch the browser process'')))"
    using rest[THEN conjunct1]
    by (simp add: second_call_after_authenticated_def eval_defs first_outcome_def)
  have second: "task_at (run second_call_after_authenticated init_sys) 2
       = Some (Finished (Threw (Error ''Failed to launch the browser process'')))"
    using rest[THEN conjunct2, THEN conjunct1]
    by (simp add: second_call_after_authenticated_def eval_defs first_outcome_def
          after_settle_def answer_while_pending_def client_ready_def mid_handshake_def)
  have count: "length (clients (run second_call_after_authenticated init_sys)) = 1"
    using rest[THEN conjunct2, THEN conjunct2, THEN conjunct1]
    by (simp add: second_call_after_authenticated_def eval_defs)
  from h1 h2 h3 h4 first second count show ?thesis by blast
qed

subsection \<open>initialize on a fresh user\<close>

text \<open>
  C6. Let user \<open>u\<close> have no client and no pending operation. The call stores a pending
  operation and creates nothing yet (\<open>s1\<close>). When the data directory exists, the body
  creates one client with the handlers of \<open>initializeWhatsApp\<close>, not ready, stores it
  with status \<open>initializing\<close> and starts the connect (\<open>s2\<close>). When \<open>client.initialize()\<close>
  resolves, the promise is fulfilled with the not-connected result and the pending entry
  is removed; status, client map and QR codes are what the handshake made of them so far,
  the body does not look at them (\<open>s3\<close>). The caller then returns that result (\<open>s4\<close>).
  Between the segments the transport may emit any lifecycle events (\<open>evs1\<close>, \<open>evs2\<close>,
  \<open>evs3\<close>), none included.
\<close>

theorem initialize_fresh_user_returns_pending:
  assumes "activeClients s u = None" "initializingClients s u = None"
    and "list_all lifecycle_event evs1" "list_all lifecycle_event evs2"
        "list_all lifecycle_event evs3"
  shows "let a = length (tasks s); b = Suc a; c = length (clients s); p = length (promises s);
             s1 = step (CallInitialize u) s;
             s2 = step (MkdirDone b None) (run evs1 s1);
             s3 = step (ConnectDone b None) (run evs2 s2);
             s4 = step (PromiseResume a) (run evs3 s3)
         in clients s1 = clients s \<and> initializingClients s1 u = Some p
            \<and> length (clients s2) = c + 1
            \<and> owner (clients s2 ! c) = u \<and> wired (clients s2 ! c) = InitHandlers
            \<and> \<not> info (clients s2 ! c)
            \<and> activeClients s2 u = Some c \<and> connectionStatus s2 u = Some Initializing
            \<and> task_at s2 b = Some (InitAwaitConnect u p c)
            \<and> promises s3 ! p = Fulfilled init_waiting_for_qr
            \<and> initializingClients s3 u = None
            \<and> activeClients s3 = activeClients (run evs2 s2)
            \<and> connectionStatus s3 = connectionStatus (run evs2 s2)
            \<and> qrCodes s3 = qrCodes (run evs2 s2)
            \<and> task_at s4 a = Some (Finished (Returned init_waiting_for_qr))
            \<and> \<not> connected init_waiting_for_qr
            \<and> length (clients s4) = c + 1"
proof -
  define a where "a = length (tasks s)"
  define b where "b = Suc a"
  define c where "c = length (clients s)"
  define p where "p = length (promises s)"
  define s1 where "s1 = step (CallInitialize u) s"
  define s1' where "s1' = run evs1 s1"
  define s2 where "s2 = step (MkdirDone b None) s1'"
  define s2' where "s2' = run evs2 s2"
  define s3 where "s3 = step (ConnectDone b None) s2'"
  define s3' where "s3' = run evs3 s3"
  define s4 where "s4 = step (PromiseResume a) s3'"
  have f1: "clients s1 = clients s" "initializingClients s1 u = Some p"
    "tasks s1 = tasks s @ [AwaitPromise u p, InitAwaitMkdir u p]"
    "promises s1 = promises s @ [Pending]"
    using assms(1,2) by (simp_all add: s1_def p_def seg_defs Let_def)
  have f1': "tasks s1' = tasks s @ [AwaitPromise u p, InitAwaitMkdir u p]"
    "promises s1' = promises s @ [Pending]" "length (clients s1') = c"
    using f1 lifecycle_run[OF assms(3), of s1] by (simp_all add: s1'_def c_def)
  have f2: "length (clients s2) = c + 1" "owner (clients s2 ! c) = u"
    "wired (clients s2 ! c) = InitHandlers" "\<not> info (clients s2 ! c)"
    "activeClients s2 u = Some c" "connectionStatus s2 u = Some Initializing"
    "tasks s2 = tasks s @ [AwaitPromise u p, InitAwaitConnect u p c]"
    "promises s2 = promises s @ [Pending]"
    using f1' by (simp_all add: s2_def a_def b_def sym_defs)
  have f2': "tasks s2' = tasks s @ [AwaitPromise u p, InitAwaitConnect u p c]"
    "promises s2' = promises s @ [Pending]" "length (clients s2') = c + 1"
    using f2 lifecycle_run[OF assms(4), of s2] by (simp_all add: s2'_def)
  have f3: "promises s3 ! p = Fulfilled init_waiting_for_qr" "initializingClients s3 u = None"
    "activeClients s3 = activeClients s2'" "connectionStatus s3 = connectionStatus s2'"
    "qrCodes s3 = qrCodes s2'" "length (clients s3) = c + 1"
    "tasks s3 = tasks s @ [AwaitPromise u p, BodyDone]"
    "promises s3 = promises s @ [Fulfilled init_waiting_for_qr]"
    using f2' by (simp_all add: s3_def a_def b_def p_def sym_defs)
  have f3': "tasks s3' = tasks s @ [AwaitPromise u p, BodyDone]"
    "promises s3' = promises s @ [Fulfilled init_waiting_for_qr]" "length (clients s3') = c + 1"
    using f3 lifecycle_run[OF assms(5), of s3] by (simp_all add: s3'_def)
  have f4: "task_at s4 a = Some (Finished (Returned init_waiting_for_qr))"
    "length (clients s4) = c + 1"
    using f3' by (simp_all add: s4_def a_def p_def sym_defs)
  have tb: "task_at s2 b = Some (InitAwaitConnect u p c)"
    using f2 by (simp add: task_at_def a_def b_def nth_append)
  have nc: "\<not> connected init_waiting_for_qr" by (simp add: init_waiting_for_qr_def)
  show ?thesis
    unfolding Let_def
    using f1(1,2) f2(1-6) tb f3(1-5) f4 nc
    unfolding s4_def s3'_def s3_def s2'_def s2_def s1'_def s1_def a_def b_def c_def p_def
    by blast
qed

text \<open>C6 for user \<open>u1\<close> on the empty registry, without any lifecycle event: the caller has
  its result while the status is still \<open>initializing\<close>.\<close>

theorem initialize_fresh_user_returns_pending_witness:
  "activeClients init_sys ''u1'' = None \<and> initializingClients init_sys ''u1'' = None
   \<and> list_all lifecycle_event []
   \<and> task_at (run [CallInitialize ''u1'', MkdirDone 1 None, ConnectDone 1 None,
                    PromiseResume 0] init_sys) 0
       = Some (Finished (Returned init_waiting_for_qr))
   \<and> getConnectionStatus (run [CallInitialize ''u1'', MkdirDone 1 None, ConnectDone 1 None,
                    PromiseResume 0] init_sys) ''u1'' = Initializing"
proof -
  have h1: "activeClients init_sys ''u1'' = None" by (simp add: init_sys_def)
  have h2: "initializingClients init_sys ''u1'' = None" by (simp add: init_sys_def)
  have h3: "list_all lifecycle_event []" by simp
  from initialize_fresh_user_returns_pending[OF h1 h2 h3 h3 h3]
  have "task_at (step (PromiseResume (length (tasks init_sys)))
           (run [] (step (ConnectDone (Suc (length (tasks init_sys))) None)
             (run [] (step (MkdirDone (Suc (length (tasks init_sys))) None)
               (run [] (step (CallInitialize ''u1'') init_sys)))))))
          (length (tasks init_sys)) = Some (Finished (Returned init_waiting_for_qr))"
    unfolding Let_def by blast
  then show ?thesis
    using h1 h2 by (simp add: eval_defs getConnectionStatus_def)
qed


subsection \<open>restore without credentials\<close>

text \<open>
  C7. Let user \<open>u\<close> have no client and no pending operation. The call of
  \<open>restoreWhatsAppSession\<close> changes nothing in the registry: it only suspends at
  \<open>hasSessionFiles\<close>. When that answers that there are no credential files, in whatever
  state \<open>s2\<close> the registry then is, the function returns the result with
  \<open>hasSession: false\<close> and \<open>connected: false\<close> and again changes no map, creates no client
  and no promise: only its own task is marked as finished.
\<close>

theorem restore_without_credentials_creates_nothing:
  assumes "activeClients s u = None" "initializingClients s u = None"
    and "\<not> hasSessionFiles v" "task_at s2 t = Some (RestoreAwaitFiles u)"
  shows "step (CallRestore u) s = s\<lparr>tasks := tasks s @ [RestoreAwaitFiles u]\<rparr>
       \<and> step (FilesChecked t v) s2
           = s2\<lparr>tasks := (tasks s2)[t := Finished (Returned restore_no_session)]\<rparr>
       \<and> hasSession restore_no_session = Some False \<and> \<not> connected restore_no_session"
  using assms by (simp add: seg_defs restore_no_session_def)

text \<open>C7 for user \<open>u1\<close> on the empty registry, the \<open>.wwebjs_auth\<close> folder being unreadable.\<close>

theorem restore_without_credentials_creates_nothing_witness:
  "activeClients init_sys ''u1'' = None \<and> initializingClients init_sys ''u1'' = None
   \<and> \<not> hasSessionFiles no_files
   \<and> task_at (step (CallRestore ''u1'') init_sys) 0 = Some (RestoreAwaitFiles ''u1'')
   \<and> run [CallRestore ''u1'', FilesChecked 0 no_files] init_sys
        = init_sys\<lparr>tasks := [Finished (Returned restore_no_session)]\<rparr>"
proof -
  have h1: "activeClients init_sys ''u1'' = None" by (simp add: init_sys_def)
  have h2: "initializingClients init_sys ''u1'' = None" by (simp add: init_sys_def)
  have h3: "\<not> hasSessionFiles no_files" by (simp add: hasSessionFiles_def no_files_def)
  have h4: "task_at (step (CallRestore ''u1'') init_sys) 0 = Some (RestoreAwaitFiles ''u1'')"
    by (simp add: eval_defs)
  from restore_without_credentials_creates_nothing[OF h1 h2 h3 h4]
  have "step (CallRestore ''u1'') init_sys = init_sys\<lparr>tasks := tasks init_sys @ [RestoreAwaitFiles ''u1'']\<rparr>"
    and "step (FilesChecked 0 no_files) (step (CallRestore ''u1'') init_sys)
           = (step (CallRestore ''u1'') init_sys)
               \<lparr>tasks := (tasks (step (CallRestore ''u1'') init_sys))
                            [0 := Finished (Returned restore_no_session)]\<rparr>"
    by blast+
  then show ?thesis
    using h1 h2 h3 h4 by (simp add: init_sys_def)
qed

subsection \<open>restore during a handshake\<close>

text \<open>
  C5 is not what the code does. After a first restore that found credential files but
  was not connected within its wait (\<open>restore_once\<close>), user \<open>u1\<close> has a client that is not
  ready, status \<open>restoring\<close> and no pending operation. A second restore sleeps its two
  seconds, finds the client still not ready, finds no pending operation, finds the
  credential files and runs the body again: a second client for \<open>u1\<close> is created and
  replaces the first in \<open>activeClients\<close> (\<open>restore_twice\<close>).
\<close>

theorem restore_mid_handshake_creates_second_client:
  "task_at (run restore_once init_sys) 0 = Some (Finished (Returned restore_not_yet))
   \<and> activeClients (run restore_once init_sys) ''u1'' = Some 0
   \<and> \<not> client_info (run restore_once init_sys) 0
   \<and> connectionStatus (run restore_once init_sys) ''u1'' = Some Restoring
   \<and> initializingClients (run restore_once init_sys) ''u1'' = None
   \<and> length (clients (run restore_once init_sys)) = 1
   \<and> task_at (run (restore_once @ [CallRestore ''u1'']) init_sys) 2
        = Some (RestoreAwaitTimer ''u1'' 0)
   \<and> map owner (clients (run restore_twice init_sys)) = [''u1'', ''u1'']
   \<and> activeClients (run restore_twice init_sys) ''u1'' = Some 1"
  by (simp add: restore_twice_def restore_once_def with_files_def eval_defs)


subsection \<open>The pending operation is cleared\<close>















subsection \<open>disconnect removes every entry\<close>

text \<open>
  C10, as stated, fails for the pending marker. The connected user \<open>u1\<close> disconnects;
  while \<open>logout\<close> is awaited the client emits \<open>disconnected\<close> and a new
  \<open>initializeWhatsApp\<close> for \<open>u1\<close> stores a pending operation. \<open>disconnectWhatsApp\<close>
  deleted the marker before its awaits and deletes only the three other maps after them:
  when it returns, the pending map still has the new entry of \<open>u1\<close>.
\<close>

theorem disconnect_removes_every_entry_counterexample:
  "task_at (run reconnect_during_logout ready_sys) 2 = Some (Finished ReturnedVoid)
   \<and> initializingClients (run reconnect_during_logout ready_sys) ''u1'' = Some 1"
  using ready_sys_eval
  by (simp add: reconnect_during_logout_def ready_sys_def eval_defs)

text \<open>
  C10, amended. \<open>disconnectWhatsApp\<close> deletes the pending marker of its user in its first
  segment, in any state (\<open>s3\<close>). If the user has a client it then awaits \<open>logout\<close> and
  \<open>destroy\<close>: whatever \<open>logout\<close> does, the call goes on to \<open>destroy\<close> (any state \<open>s4\<close>),
  and whatever \<open>destroy\<close> does and whatever happened during the two awaits, the last
  segment (any state \<open>s2\<close>) returns and leaves no client, QR code or status for the user;
  it does not touch the pending map. So if only lifecycle events of the transport occurred
  during the awaits (\<open>evs1\<close>, \<open>evs2\<close>), no map has an entry for \<open>u\<close> when the call
  returns. If user \<open>u0\<close> has no client, the call returns at once and no map has an entry
  for \<open>u0\<close>. The outer \<open>catch\<close>, the only way the function throws, removes the four
  entries as well.
\<close>

theorem disconnect_removes_every_entry:
  assumes "activeClients s u = Some c" "list_all lifecycle_event evs1"
    and "list_all lifecycle_event evs2" "activeClients s0 u0 = None"
  shows "(let t = length (tasks s);
             s' = run (CallDisconnect u # evs1 @ LogoutDone t r1 # evs2 @ [DestroyDone t r2]) s
          in task_at s' t = Some (Finished ReturnedVoid)
             \<and> activeClients s' u = None \<and> qrCodes s' u = None
             \<and> connectionStatus s' u = None \<and> initializingClients s' u = None)
       \<and> (let s' = step (CallDisconnect u0) s0
          in task_at s' (length (tasks s0)) = Some (Finished ReturnedVoid)
             \<and> activeClients s' u0 = None \<and> qrCodes s' u0 = None
             \<and> connectionStatus s' u0 = None \<and> initializingClients s' u0 = None)
       \<and> (let s' = disconnect_catch t1 u1 e s1
          in task_at s' t1 = (if t1 < length (tasks s1) then Some (Finished (Threw e)) else None)
             \<and> activeClients s' u1 = None \<and> qrCodes s' u1 = None
             \<and> connectionStatus s' u1 = None \<and> initializingClients s' u1 = None)
       \<and> (let s' = step (DestroyDone t2 r2) s2
          in task_at s2 t2 = Some (DiscAwaitDestroy u2 c2) \<longrightarrow>
             task_at s' t2 = Some (Finished ReturnedVoid)
             \<and> activeClients s' u2 = None \<and> qrCodes s' u2 = None
             \<and> connectionStatus s' u2 = None
             \<and> initializingClients s' = initializingClients s2)
       \<and> initializingClients (step (CallDisconnect u3) s3) u3 = None
       \<and> (task_at s4 t4 = Some (DiscAwaitLogout u4 c4) \<longrightarrow>
            step (LogoutDone t4 r1) s4 = set_task t4 (DiscAwaitDestroy u4 c4) s4)"
proof -
  define t where "t = length (tasks s)"
  define sa where "sa = step (CallDisconnect u) s"
  define sb where "sb = run evs1 sa"
  define sc where "sc = step (LogoutDone t r1) sb"
  define sd where "sd = run evs2 sc"
  define se where "se = step (DestroyDone t r2) sd"
  have a: "tasks sa = tasks s @ [DiscAwaitLogout u c]" "initializingClients sa u = None"
    using assms(1) by (simp_all add: sa_def seg_defs)
  have b: "tasks sb = tasks s @ [DiscAwaitLogout u c]" "initializingClients sb u = None"
    using a lifecycle_run[OF assms(2), of sa] by (simp_all add: sb_def)
  have c: "tasks sc = tasks s @ [DiscAwaitDestroy u c]" "initializingClients sc u = None"
    using b by (simp_all add: sc_def t_def task_at_def seg_defs)
  have d: "tasks sd = tasks s @ [DiscAwaitDestroy u c]" "initializingClients sd u = None"
    using c lifecycle_run[OF assms(3), of sc] by (simp_all add: sd_def)
  have e: "task_at se t = Some (Finished ReturnedVoid)" "activeClients se u = None"
    "qrCodes se u = None" "connectionStatus se u = None" "initializingClients se u = None"
    using d by (simp_all add: se_def t_def task_at_def seg_defs)
  have run_eq:
    "run (CallDisconnect u # evs1 @ LogoutDone t r1 # evs2 @ [DestroyDone t r2]) s = se"
    by (simp add: run_append se_def sd_def sc_def sb_def sa_def)
  have one: "let t = length (tasks s);
             s' = run (CallDisconnect u # evs1 @ LogoutDone t r1 # evs2 @ [DestroyDone t r2]) s
          in task_at s' t = Some (Finished ReturnedVoid)
             \<and> activeClients s' u = None \<and> qrCodes s' u = None
             \<and> connectionStatus s' u = None \<and> initializingClients s' u = None"
    unfolding Let_def t_def[symmetric] run_eq using e by simp
  have two: "let s' = step (CallDisconnect u0) s0
          in task_at s' (length (tasks s0)) = Some (Finished ReturnedVoid)
             \<and> activeClients s' u0 = None \<and> qrCodes s' u0 = None
             \<and> connectionStatus s' u0 = None \<and> initializingClients s' u0 = None"
    using assms(4) by (simp add: Let_def task_at_def seg_defs)
  have three: "let s' = disconnect_catch t1 u1 e s1
          in task_at s' t1 = (if t1 < length (tasks s1) then Some (Finished (Threw e)) else None)
             \<and> activeClients s' u1 = None \<and> qrCodes s' u1 = None
             \<and> connectionStatus s' u1 = None \<and> initializingClients s' u1 = None"
    by (simp add: Let_def seg_defs task_at_def disconnect_catch_def)
  have four: "let s' = step (DestroyDone t2 r2) s2
          in task_at s2 t2 = Some (DiscAwaitDestroy u2 c2) \<longrightarrow>
             task_at s' t2 = Some (Finished ReturnedVoid)
             \<and> activeClients s' u2 = None \<and> qrCodes s' u2 = None
             \<and> connectionStatus s' u2 = None
             \<and> initializingClients s' = initializingClients s2"
    by (auto simp: Let_def seg_defs task_at_def split: if_splits)
  have five: "initializingClients (step (CallDisconnect u3) s3) u3 = None"
    by (simp add: seg_defs Let_def split: option.splits)
  have six: "task_at s4 t4 = Some (DiscAwaitLogout u4 c4) \<longrightarrow>
            step (LogoutDone t4 r1) s4 = set_task t4 (DiscAwaitDestroy u4 c4) s4"
    by (simp add: disconnect_after_logout_def)
  from one two three four five six show ?thesis by blast
qed

text \<open>The amended C10 for the connected user \<open>u1\<close>: \<open>logout\<close> emits \<open>disconnected\<close> and then fails,
  \<open>destroy\<close> fails too.\<close>

theorem disconnect_removes_every_entry_witness:
  "activeClients ready_sys ''u1'' = Some 0 \<and> list_all lifecycle_event [Emit 0 DisconnectedEv]
   \<and> list_all lifecycle_event [] \<and> activeClients init_sys ''u1'' = None
   \<and> getClient (run [CallDisconnect ''u1'', Emit 0 DisconnectedEv,
                      LogoutDone 2 (Some (Error ''Protocol error'')),
                      DestroyDone 2 (Some (Error ''Target closed''))] ready_sys) ''u1'' = None
   \<and> getQRCode (run [CallDisconnect ''u1'', Emit 0 DisconnectedEv,
                      LogoutDone 2 (Some (Error ''Protocol error'')),
                      DestroyDone 2 (Some (Error ''Target closed''))] ready_sys) ''u1'' = None
   \<and> getConnectionStatus (run [CallDisconnect ''u1'', Emit 0 DisconnectedEv,
                      LogoutDone 2 (Some (Error ''Protocol error'')),
                      DestroyDone 2 (Some (Error ''Target closed''))] ready_sys) ''u1''
       = NotInitialized
   \<and> initializingClients (run [CallDisconnect ''u1'', Emit 0 DisconnectedEv,
                      LogoutDone 2 (Some (Error ''Protocol error'')),
                      DestroyDone 2 (Some (Error ''Target closed''))] ready_sys) ''u1'' = None"
proof -
  have h1: "activeClients ready_sys ''u1'' = Some 0" using ready_sys_eval by simp
  have h2: "list_all lifecycle_event [Emit 0 DisconnectedEv]" by simp
  have h3: "list_all lifecycle_event []" by simp
  have h4: "activeClients init_sys ''u1'' = None" by (simp add: init_sys_def)
  have l: "length (tasks ready_sys) = 2" using ready_sys_eval by simp
  from disconnect_removes_every_entry[OF h1 h2 h3 h4,
         of "Some (Error ''Protocol error'')" "Some (Error ''Target closed'')"]
  have "let t = length (tasks ready_sys);
            s' = run (CallDisconnect ''u1'' # [Emit 0 DisconnectedEv]
                        @ LogoutDone t (Some (Error ''Protocol error'')) # []
                        @ [DestroyDone t (Some (Error ''Target closed''))]) ready_sys
        in task_at s' t = Some (Finished ReturnedVoid)
           \<and> activeClients s' ''u1'' = None \<and> qrCodes s' ''u1'' = None
           \<and> connectionStatus s' ''u1'' = None \<and> initializingClients s' ''u1'' = None"
    by blast
  then show ?thesis
    using h1 h2 h3 h4
    by (simp add: l Let_def getClient_def getQRCode_def getConnectionStatus_def
             del: run.simps)
qed


section \<open>Properties of the gateway\<close>

subsection \<open>Waiting for readiness\<close>

lemma poll_ready_never:
  "\<forall>k\<le>20. \<not> obs k \<Longrightarrow> n \<le> 20 \<Longrightarrow> poll_ready obs n = 20"
proof (induction obs n rule: poll_ready.induct)
  case (1 obs attempts)
  show ?case
  proof (cases "attempts < 20")
    case True
    with 1 show ?thesis by (subst poll_ready.simps) simp
  next
    case False
    with 1 show ?thesis by (subst poll_ready.simps) simp
  qed
qed

lemma poll_ready_bound: "n \<le> 20 \<Longrightarrow> poll_ready obs n \<le> 20"
proof (induction obs n rule: poll_ready.induct)
  case (1 obs attempts)
  show ?case
    using 1 by (subst poll_ready.simps) auto
qed

lemma poll_ready_first:
  "\<forall>j<k. n \<le> j \<longrightarrow> \<not> obs j \<Longrightarrow> obs k \<Longrightarrow> n \<le> k \<Longrightarrow> k \<le> 20 \<Longrightarrow> poll_ready obs n = k"
proof (induction obs n rule: poll_ready.induct)
  case (1 obs attempts)
  show ?case
  proof (cases "attempts = k")
    case True
    with 1 show ?thesis by (subst poll_ready.simps) simp
  next
    case False
    with 1 have lt: "attempts < k" by simp
    with 1 have no: "\<not> obs attempts" by simp
    from lt 1 have "poll_ready obs (attempts + 1) = k" by simp
    with no lt 1 show ?thesis by (subst poll_ready.simps) simp
  qed
qed

lemma await_ready_never:
  "\<forall>k\<le>20. \<not> obs k \<Longrightarrow> await_ready obs msg = (10000, Some (Error msg))"
  by (simp add: await_ready_def poll_ready_never poll_interval_ms_def Let_def)

lemma await_ready_first:
  "\<forall>j<k. \<not> obs j \<Longrightarrow> obs k \<Longrightarrow> k \<le> 20 \<Longrightarrow> await_ready obs msg = (500 * k, None)"
  using poll_ready_first[of k 0 obs]
  by (cases "k = 0") (auto simp: await_ready_def poll_interval_ms_def Let_def)

lemma await_ready_le: "await_ready obs msg = (ms, r) \<Longrightarrow> ms \<le> 10000"
  using poll_ready_bound[of 0 obs]
  by (auto simp: await_ready_def poll_interval_ms_def Let_def split: if_splits)

lemma getChats_le: "fst (getChats s u env) \<le> 10000"
  by (auto simp: getChats_def split: option.splits prod.splits sum.splits
           dest: await_ready_le)

lemma getChatMessages_le: "fst (getChatMessages s u chatId env) \<le> 10000"
  by (auto simp: getChatMessages_def split: option.splits prod.splits sum.splits
           dest: await_ready_le)

lemma getChatCount_le: "fst (getChatCount s u env) \<le> 10000"
  by (auto simp: getChatCount_def split: option.splits prod.splits sum.splits
           dest: await_ready_le)

lemma poll_ready_soon: "poll_ready (ready_at handshake_sys 0 soon_ready_env) 0 = 1"
  using handshake_sys_eval
  by (intro poll_ready_first) (simp_all add: ready_at_def soon_ready_env_def)

text \<open>
  C3, as stated, fails for \<open>sendMessage\<close>. The client of \<open>u1\<close> is stored but not ready
  and becomes ready half a second later. \<open>getChats\<close> sleeps once and answers;
  \<open>sendMessage\<close> does not wait at all and fails at once with
  \<open>'WhatsApp client not connected'\<close>.
\<close>

theorem gateway_polls_readiness_counterexample:
  "getClient handshake_sys ''u1'' = Some 0 \<and> \<not> client_info handshake_sys 0
   \<and> later_ready soon_ready_env 1
   \<and> getChats handshake_sys ''u1'' soon_ready_env = (500, Inr [])
   \<and> sendMessage handshake_sys ''u1'' ''c1'' ''Hello'' soon_ready_env
       = (0, Inl (Error ''WhatsApp client not connected''))"
  using handshake_sys_eval poll_ready_soon
  by (simp add: getChats_def sendMessage_def await_ready_def ready_at_def Let_def
        poll_interval_ms_def soon_ready_env_def)

text \<open>
  C3, amended. With a stored client whose readiness indicator stays false,
  \<open>getChats\<close>, \<open>getChatMessages\<close> and \<open>getChatCount\<close> sleep 20 times 500 ms and then
  fail with their not-ready error; if the client is first seen ready after the \<open>k\<close>-th
  sleep (\<open>k \<le> 20\<close>), \<open>getChats\<close> has slept \<open>k\<close> times 500 ms; none of the three ever
  sleeps longer than 10 seconds. \<open>sendMessage\<close> does not poll: with a stored client that
  is not ready it fails at once with \<open>'WhatsApp client not connected'\<close>.
\<close>

theorem read_operations_poll_readiness_send_fails_at_once:
  "(getClient s u = Some c \<and> (\<forall>k\<le>20. \<not> ready_at s c env k) \<longrightarrow>
      getChats s u env = (20 * poll_interval_ms, Inl (Error not_ready_long))
      \<and> getChatMessages s u chatId env = (20 * poll_interval_ms, Inl (Error not_ready_long))
      \<and> getChatCount s u env
          = (20 * poll_interval_ms, Inl (Error ''WhatsApp client not ready'')))
   \<and> (getClient s u = Some c \<and> (\<forall>j<k. \<not> ready_at s c env j) \<and> ready_at s c env k
        \<and> k \<le> 20 \<longrightarrow> fst (getChats s u env) = k * poll_interval_ms)
   \<and> fst (getChats s u env) \<le> 20 * poll_interval_ms
   \<and> fst (getChatMessages s u chatId env) \<le> 20 * poll_interval_ms
   \<and> fst (getChatCount s u env) \<le> 20 * poll_interval_ms
   \<and> poll_interval_ms = 500
   \<and> (getClient s u = Some c \<and> \<not> client_info s c \<longrightarrow>
        sendMessage s u chatId msg env = (0, Inl (Error ''WhatsApp client not connected'')))"
proof -
  have never: "getChats s u env = (20 * poll_interval_ms, Inl (Error not_ready_long))
      \<and> getChatMessages s u chatId env = (20 * poll_interval_ms, Inl (Error not_ready_long))
      \<and> getChatCount s u env
          = (20 * poll_interval_ms, Inl (Error ''WhatsApp client not ready''))"
    if "getClient s u = Some c" "\<forall>k\<le>20. \<not> ready_at s c env k"
    using that await_ready_never[of "ready_at s c env"]
    by (simp add: getChats_def getChatMessages_def getChatCount_def poll_interval_ms_def)
  have first: "fst (getChats s u env) = k * poll_interval_ms"
    if "getClient s u = Some c" "\<forall>j<k. \<not> ready_at s c env j" "ready_at s c env k" "k \<le> 20"
    using that await_ready_first[of k "ready_at s c env" not_ready_long]
    by (simp add: getChats_def poll_interval_ms_def split: sum.splits)
  have send: "sendMessage s u chatId msg env
                = (0, Inl (Error ''WhatsApp client not connected''))"
    if "getClient s u = Some c" "\<not> client_info s c"
    using that by (simp add: sendMessage_def)
  show ?thesis
    using never first send getChats_le[of s u env] getChatMessages_le[of s u chatId env]
      getChatCount_le[of s u env]
    by (simp add: poll_interval_ms_def)
qed

text \<open>The amended C3 for the stored, never ready client of \<open>u1\<close>.\<close>

theorem read_operations_poll_readiness_send_fails_at_once_witness:
  "getClient handshake_sys ''u1'' = Some 0
   \<and> (\<forall>k. \<not> ready_at handshake_sys 0 never_ready_env k)
   \<and> \<not> client_info handshake_sys 0
   \<and> getChats handshake_sys ''u1'' never_ready_env = (10000, Inl (Error not_ready_long))
   \<and> getChatCount handshake_sys ''u1'' never_ready_env
       = (10000, Inl (Error ''WhatsApp client not ready''))
   \<and> sendMessage handshake_sys ''u1'' ''c1'' ''Hello'' never_ready_env
       = (0, Inl (Error ''WhatsApp client not connected''))"
proof -
  have h1: "getClient handshake_sys ''u1'' = Some 0" using handshake_sys_eval by simp
  have h2: "\<forall>k. \<not> ready_at handshake_sys 0 never_ready_env k"
    using handshake_sys_eval
    by (simp add: ready_at_def never_ready_env_def soon_ready_env_def)
  have h3: "\<not> client_info handshake_sys 0" using handshake_sys_eval by simp
  from read_operations_poll_readiness_send_fails_at_once
         [of handshake_sys "''u1''" 0 never_ready_env "''c1''" 0 "''Hello''"] h1 h2 h3
  show ?thesis by (simp add: poll_interval_ms_def)
qed


subsection \<open>The send-verification fallback\<close>

lemma verify_scan_find:
  "verify_scan now sent ms = map_option msg_id (find (acceptable now sent) ms)"
  by (induction ms) (auto simp: acceptable_def)

lemma hello_matches:
  "text_matches '' Hello '' ''Hello'' \<and> \<not> text_matches ''Thanks'' ''Hello''"
  by code_simp

lemma flaky_error_benign:
  "benign_error (Error ''Cannot read properties of undefined (reading markedUnread)'')"
  by code_simp

text \<open>
  C4, as stated, fails. The send to the chat throws the internal error. Among the last
  messages, \<open>msgB\<close> is the text just sent (own, two seconds old, body equal to the sent
  text once trimmed), and \<open>msgA\<close> is an own message sent four seconds ago with another
  text. A message with a matching body exists, yet the function returns the id of
  \<open>msgA\<close>: the loop takes the first own message that is younger than five seconds,
  before it has looked at the later ones.
\<close>

theorem send_fallback_prefers_text_match_counterexample:
  "fetchMessages flaky_chat 10
     = Inr [own_message ''msgA'' ''Thanks'' 999996, own_message ''msgB'' '' Hello '' 999998]
   \<and> \<not> text_matches (body (own_message ''msgA'' ''Thanks'' 999996)) ''Hello''
   \<and> text_matches (body (own_message ''msgB'' '' Hello '' 999998)) ''Hello''
   \<and> fromMe (own_message ''msgB'' '' Hello '' 999998)
   \<and> age_ms (int (clock flaky_env)) (own_message ''msgB'' '' Hello '' 999998) < 15000
   \<and> sendMessage ready_sys ''u1'' ''c1'' ''Hello'' flaky_env = (2000, Inr ''msgA'')"
  using ready_sys_eval hello_matches flaky_error_benign
  by (simp add: sendMessage_def send_fallback_def flaky_env_def soon_ready_env_def
        flaky_chat_def own_message_def age_ms_def settle_wait_ms_def)

text \<open>
  C4, amended. Let the client be ready, the chat exist and the underlying send throw
  \<open>e\<close>. If the message of \<open>e\<close> contains \<open>markedUnread\<close> or
  \<open>Cannot read properties of undefined\<close>, the function sleeps 2000 ms, fetches the last
  10 messages and returns the id of the first message, in the order fetched, that is own,
  younger than 15 seconds and either has a non-empty body that matches the sent text
  (equal after trimming, or one containing the other) or is younger than 5 seconds; if
  there is no such message, if its id is empty, or if the fetch throws, it returns
  \<open>temp_\<close> followed by the clock in milliseconds, and does not throw. Any other \<open>e\<close> is
  thrown on unchanged, without sleeping.
\<close>

theorem send_fallback_takes_first_acceptable_message:
  assumes "getClient s u = Some c" "client_info s c"
    and "client_getChatById env chatId = Inr (Some chat)" "send chat msg = Inl e"
  shows "(benign_error e \<longrightarrow>
            sendMessage s u chatId msg env =
              (2000, Inr (case fetchMessages chat 10 of
                            Inl verifyError \<Rightarrow> temp_id (clock env)
                          | Inr recent \<Rightarrow>
                              (case find (acceptable (int (clock env)) msg) recent of
                                 Some m \<Rightarrow>
                                   if msg_id m \<noteq> [] then msg_id m else temp_id (clock env)
                               | None \<Rightarrow> temp_id (clock env)))))
       \<and> (\<not> benign_error e \<longrightarrow> sendMessage s u chatId msg env = (0, Inl e))"
  using assms
  by (auto simp: sendMessage_def send_fallback_def verify_scan_find settle_wait_ms_def
           split: sum.splits option.splits)

text \<open>The amended C4 where the verification fetch itself throws: the synthetic id.\<close>

theorem send_fallback_takes_first_acceptable_message_witness:
  "getClient ready_sys ''u1'' = Some 0 \<and> client_info ready_sys 0
   \<and> client_getChatById deaf_env ''c1'' = Inr (Some deaf_chat)
   \<and> send deaf_chat ''Hello''
       = Inl (Error ''Cannot read properties of undefined (reading markedUnread)'')
   \<and> benign_error (Error ''Cannot read properties of undefined (reading markedUnread)'')
   \<and> sendMessage ready_sys ''u1'' ''c1'' ''Hello'' deaf_env = (2000, Inr ''temp_1000000000'')"
proof -
  have h1: "getClient ready_sys ''u1'' = Some 0" using ready_sys_eval by simp
  have h2: "client_info ready_sys 0" using ready_sys_eval by simp
  have h3: "client_getChatById deaf_env ''c1'' = Inr (Some deaf_chat)"
    by (simp add: deaf_env_def soon_ready_env_def)
  have h4: "send deaf_chat ''Hello''
              = Inl (Error ''Cannot read properties of undefined (reading markedUnread)'')"
    by (simp add: deaf_chat_def flaky_chat_def)
  have t: "temp_id (clock deaf_env) = ''temp_1000000000''"
    by (simp add: deaf_env_def soon_ready_env_def temp_id_def decimal.simps digit_char_def)
  from send_fallback_takes_first_acceptable_message[OF h1 h2 h3 h4] flaky_error_benign
  have "sendMessage ready_sys ''u1'' ''c1'' ''Hello'' deaf_env =
          (2000, Inr (case fetchMessages deaf_chat 10 of
                        Inl verifyError \<Rightarrow> temp_id (clock deaf_env)
                      | Inr recent \<Rightarrow>
                          (case find (acceptable (int (clock deaf_env)) ''Hello'') recent of
                             Some m \<Rightarrow>
                               if msg_id m \<noteq> [] then msg_id m else temp_id (clock deaf_env)
                           | None \<Rightarrow> temp_id (clock deaf_env))))"
    by blast
  then show ?thesis
    using h1 h2 h3 h4 flaky_error_benign t by (simp add: deaf_chat_def)
qed

subsection \<open>Listing conversations\<close>

lemma insert_by_skip:
  "\<forall>y\<in>set as. cmp x y > 0 \<Longrightarrow> insert_by cmp x (as @ bs) = as @ insert_by cmp x bs"
  by (induction as) auto

lemma insert_by_front:
  "\<forall>y\<in>set ys. cmp x y \<le> 0 \<Longrightarrow> insert_by cmp x ys = x # ys"
  by (cases ys) auto

lemma js_sort_partition:
  "js_sort cmp_timestamp xs = filter has_timestamp xs @ filter (\<lambda>x. \<not> has_timestamp x) xs"
proof (induction xs)
  case Nil
  then show ?case by (simp add: js_sort_def)
next
  case (Cons x xs)
  have unfold: "js_sort cmp_timestamp (x # xs)
                  = insert_by cmp_timestamp x (js_sort cmp_timestamp xs)"
    by (simp add: js_sort_def)
  show ?case
  proof (cases "has_timestamp x")
    case True
    then have "\<forall>y\<in>set (js_sort cmp_timestamp xs). cmp_timestamp x y \<le> 0"
      by (auto simp: cmp_timestamp_def has_timestamp_def)
    then show ?thesis using True Cons by (simp add: unfold insert_by_front)
  next
    case False
    then have a: "\<forall>y\<in>set (filter has_timestamp xs). cmp_timestamp x y > 0"
      by (auto simp: cmp_timestamp_def has_timestamp_def)
    have b: "\<forall>y\<in>set (filter (\<lambda>x. \<not> has_timestamp x) xs). cmp_timestamp x y \<le> 0"
      using False by (auto simp: cmp_timestamp_def has_timestamp_def)
    show ?thesis
      using False Cons
        insert_by_skip[of "filter has_timestamp xs" cmp_timestamp x
                          "filter (\<lambda>x. \<not> has_timestamp x) xs", OF a]
        insert_by_front[of "filter (\<lambda>x. \<not> has_timestamp x) xs" cmp_timestamp x, OF b]
      by (simp add: unfold)
  qed
qed

lemma getChats_ready:
  "getClient s u = Some c \<Longrightarrow> client_info s c \<Longrightarrow> client_getChats env = Inr chats \<Longrightarrow>
     getChats s u env =
       (0, Inr (filter has_timestamp (map (format_chat env) chats)
                @ filter (\<lambda>x. \<not> has_timestamp x) (map (format_chat env) chats)))"
  by (cases chats)
     (simp_all add: getChats_def await_ready_def ready_at_def js_sort_partition)

lemma format_chat_fields:
  "cs_id (format_chat env chat) = chat_serialized chat"
  "cs_name (format_chat env chat) = fst (resolve_contact chat)"
  "cs_phoneNumber (format_chat env chat) = fst (snd (resolve_contact chat))"
  "cs_avatar (format_chat env chat) = snd (snd (resolve_contact chat))"
  "cs_lastMessage (format_chat env chat) = fst (summarize (last_message chat))"
  "cs_lastMessageType (format_chat env chat) = fst (snd (summarize (last_message chat)))"
  "cs_lastMessageImage (format_chat env chat) = snd (snd (summarize (last_message chat)))"
  "cs_timestamp (format_chat env chat)
     = format_timestamp (fmt env) (int (clock env)) (last_message chat)"
  "cs_unread (format_chat env chat) = unreadCount chat"
  "cs_isGroup (format_chat env chat) = isGroup chat"
  "cs_isReadOnly (format_chat env chat) = isReadOnly chat"
  by (simp_all add: format_chat_def Let_def split: prod.splits)

lemma resolve_contact_failed:
  "race (getContact chat) 5000 ''Contact fetch timeout'' = Inl e \<Longrightarrow>
     resolve_contact chat
       = (js_or (chat_name chat) (js_or (chat_user chat) ''Unknown''), chat_user chat, None)"
  by (simp add: resolve_contact_def)

lemma resolve_contact_no_picture:
  "race (getContact chat) 5000 ''Contact fetch timeout'' = Inr ct \<Longrightarrow>
   race (getProfilePicUrl ct) 3000 ''Profile pic timeout'' = Inl e \<Longrightarrow>
     resolve_contact chat
       = (js_or (pushname ct) (js_or (contact_name ct) (js_or (number ct)
            (js_or (chat_name chat) ''Unknown''))),
          js_or (number ct) (chat_user chat), None)"
  by (simp add: resolve_contact_def)

lemma last_message_failed:
  "race (fetchLast chat) 5000 ''Messages fetch timeout'' = Inl e \<Longrightarrow> last_message chat = None"
  by (simp add: last_message_def)

lemma format_chat_all_failed:
  assumes "race (getContact chat) 5000 ''Contact fetch timeout'' = Inl e1"
    and "race (fetchLast chat) 5000 ''Messages fetch timeout'' = Inl e3"
  shows "format_chat env chat = (basic_chat_info chat)\<lparr>cs_unread := unreadCount chat\<rparr>"
  by (simp add: format_chat_def resolve_contact_failed[OF assms(1)] last_message_failed[OF assms(2)]
        summarize_def format_timestamp_def basic_chat_info_def)

text \<open>
  C9. On a ready session, \<open>getChats\<close> returns without sleeping and without error: one
  entry per conversation of the transport, each made from its own conversation alone,
  those with a timestamp first and otherwise in the transport's order; for no
  conversations this is the empty list. For any conversation: if the contact cannot be
  resolved in 5 s, name and phone number come from the chat and there is no avatar; if only
  the picture fails within 3 s, only the avatar is missing; if the last message cannot be
  fetched in 5 s, the entry has no last message, type, image or timestamp. With all of them
  failing the entry is the basic chat info of the outer \<open>catch\<close>, except that it keeps the
  unread count.
\<close>

theorem list_conversations_degrades_per_entry:
  "(getClient s u = Some c \<and> client_info s c \<and> client_getChats env = Inr chats \<longrightarrow>
      getChats s u env =
        (0, Inr (filter has_timestamp (map (format_chat env) chats)
                 @ filter (\<lambda>x. \<not> has_timestamp x) (map (format_chat env) chats)))
      \<and> (chats = [] \<longrightarrow> getChats s u env = (0, Inr [])))
   \<and> cs_id (format_chat env chat) = chat_serialized chat
   \<and> (race (getContact chat) 5000 ''Contact fetch timeout'' = Inl e1 \<longrightarrow>
        cs_name (format_chat env chat)
          = js_or (chat_name chat) (js_or (chat_user chat) ''Unknown'')
        \<and> cs_phoneNumber (format_chat env chat) = chat_user chat
        \<and> cs_avatar (format_chat env chat) = None)
   \<and> (race (getContact chat) 5000 ''Contact fetch timeout'' = Inr ct
        \<and> race (getProfilePicUrl ct) 3000 ''Profile pic timeout'' = Inl e2 \<longrightarrow>
        cs_name (format_chat env chat)
          = js_or (pushname ct) (js_or (contact_name ct) (js_or (number ct)
              (js_or (chat_name chat) ''Unknown'')))
        \<and> cs_phoneNumber (format_chat env chat) = js_or (number ct) (chat_user chat)
        \<and> cs_avatar (format_chat env chat) = None)
   \<and> (race (fetchLast chat) 5000 ''Messages fetch timeout'' = Inl e3 \<longrightarrow>
        cs_lastMessage (format_chat env chat) = []
        \<and> cs_lastMessageType (format_chat env chat) = None
        \<and> cs_lastMessageImage (format_chat env chat) = None
        \<and> cs_timestamp (format_chat env chat) = [])
   \<and> (race (getContact chat) 5000 ''Contact fetch timeout'' = Inl e1
        \<and> race (fetchLast chat) 5000 ''Messages fetch timeout'' = Inl e3 \<longrightarrow>
        format_chat env chat = (basic_chat_info chat)\<lparr>cs_unread := unreadCount chat\<rparr>)"
proof -
  have list: "getChats s u env =
        (0, Inr (filter has_timestamp (map (format_chat env) chats)
                 @ filter (\<lambda>x. \<not> has_timestamp x) (map (format_chat env) chats)))
      \<and> (chats = [] \<longrightarrow> getChats s u env = (0, Inr []))"
    if "getClient s u = Some c" "client_info s c" "client_getChats env = Inr chats"
    using getChats_ready[OF that] by simp
  have contact: "cs_name (format_chat env chat)
          = js_or (chat_name chat) (js_or (chat_user chat) ''Unknown'')
        \<and> cs_phoneNumber (format_chat env chat) = chat_user chat
        \<and> cs_avatar (format_chat env chat) = None"
    if "race (getContact chat) 5000 ''Contact fetch timeout'' = Inl e1"
    by (simp add: format_chat_fields resolve_contact_failed[OF that])
  have picture: "cs_name (format_chat env chat)
          = js_or (pushname ct) (js_or (contact_name ct) (js_or (number ct)
              (js_or (chat_name chat) ''Unknown'')))
        \<and> cs_phoneNumber (format_chat env chat) = js_or (number ct) (chat_user chat)
        \<and> cs_avatar (format_chat env chat) = None"
    if "race (getContact chat) 5000 ''Contact fetch timeout'' = Inr ct"
      "race (getProfilePicUrl ct) 3000 ''Profile pic timeout'' = Inl e2"
    by (simp add: format_chat_fields resolve_contact_no_picture[OF that])
  have message: "cs_lastMessage (format_chat env chat) = []
        \<and> cs_lastMessageType (format_chat env chat) = None
        \<and> cs_lastMessageImage (format_chat env chat) = None
        \<and> cs_timestamp (format_chat env chat) = []"
    if "race (fetchLast chat) 5000 ''Messages fetch timeout'' = Inl e3"
    by (simp add: format_chat_fields last_message_failed[OF that] summarize_def
          format_timestamp_def)
  show ?thesis
    using list contact picture message format_chat_all_failed[of chat e1 e3 env]
      format_chat_fields(1)[of env chat]
    by blast
qed


text \<open>C9 for the ready user \<open>u1\<close> with two conversations: every sub-fetch of the first
  fails or hangs, and both entries are returned, the one with a timestamp first.\<close>

theorem list_conversations_degrades_per_entry_witness:
  "getClient ready_sys ''u1'' = Some 0 \<and> client_info ready_sys 0
   \<and> client_getChats two_chats_env = Inr [broken_chat, healthy_chat]
   \<and> race (getContact broken_chat) 5000 ''Contact fetch timeout''
       = Inl (Error ''Contact fetch timeout'')
   \<and> race (fetchLast broken_chat) 5000 ''Messages fetch timeout''
       = Inl (Error ''Evaluation failed'')
   \<and> getChats ready_sys ''u1'' two_chats_env
       = (0, Inr [format_chat two_chats_env healthy_chat,
                  (basic_chat_info broken_chat)\<lparr>cs_unread := 2\<rparr>])
   \<and> cs_name (format_chat two_chats_env healthy_chat) = ''Bobby''
   \<and> cs_lastMessage (format_chat two_chats_env healthy_chat) = ''See you''
   \<and> cs_name (basic_chat_info broken_chat) = ''111''"
proof -
  have h1: "getClient ready_sys ''u1'' = Some 0" and h2: "client_info ready_sys 0"
    using ready_sys_eval by simp_all
  have h3: "client_getChats two_chats_env = Inr [broken_chat, healthy_chat]"
    by (simp add: two_chats_env_def soon_ready_env_def)
  have h4: "race (getContact broken_chat) 5000 ''Contact fetch timeout''
              = Inl (Error ''Contact fetch timeout'')"
    and h5: "race (fetchLast broken_chat) 5000 ''Messages fetch timeout''
              = Inl (Error ''Evaluation failed'')"
    by (simp_all add: race_def broken_chat_def)
  have ts: "has_timestamp (format_chat two_chats_env healthy_chat)"
    by (simp add: has_timestamp_def format_chat_def resolve_contact_def last_message_def
          summarize_def format_timestamp_def healthy_chat_def race_def own_message_def
          two_chats_env_def soon_ready_env_def plain_fmt_def diff_days_def js_or_def Let_def)
  have vals: "cs_name (format_chat two_chats_env healthy_chat) = ''Bobby''"
    "cs_lastMessage (format_chat two_chats_env healthy_chat) = ''See you''"
    "cs_name (basic_chat_info broken_chat) = ''111''"
    "unreadCount broken_chat = 2"
    by (simp_all add: format_chat_def resolve_contact_def last_message_def
          summarize_def healthy_chat_def race_def own_message_def basic_chat_info_def
          broken_chat_def js_or_def Let_def)
  from list_conversations_degrades_per_entry
         [of ready_sys "''u1''" 0 two_chats_env "[broken_chat, healthy_chat]" broken_chat
             "Error ''Contact fetch timeout''" _ _ "Error ''Evaluation failed''"]
       h1 h2 h3 h4 h5
  have "getChats ready_sys ''u1'' two_chats_env =
          (0, Inr (filter has_timestamp (map (format_chat two_chats_env)
                                             [broken_chat, healthy_chat])
                   @ filter (\<lambda>x. \<not> has_timestamp x)
                       (map (format_chat two_chats_env) [broken_chat, healthy_chat])))"
    and "format_chat two_chats_env broken_chat
           = (basic_chat_info broken_chat)\<lparr>cs_unread := unreadCount broken_chat\<rparr>"
    by blast+
  then show ?thesis
    using h1 h2 h3 h4 h5 ts vals
    by (simp add: has_timestamp_def basic_chat_info_def)
qed


end
